theory Spec2Isabelle
  imports Complex_Main "HOL-Library.Word"
begin

unbundle bit_operations_syntax

chapter \<open>The model\<close>

section \<open>Shared vocabulary\<close>

text \<open>
  The renderer of \<^verbatim>\<open>deferred_renderer.h\<close> names every GPU object (semaphore, command
  buffer, image view, sampler, ...) by a \<^verbatim>\<open>uint32_t\<close>.
  \<^verbatim>\<open>std::numeric_limits<uint32_t>::max()\<close> is the name of no object.
\<close>

type_synonym handle = "32 word"

definition UINT32_MAX :: handle where
  "UINT32_MAX = - 1"

text \<open>
  Failures of the C++ code are values: \<^verbatim>\<open>throw std::runtime_error(msg)\<close> is
  \<open>RuntimeError msg\<close>; reading a \<^verbatim>\<open>std::vector\<close> past its end (undefined behaviour
  in C++) is \<open>OutOfRange\<close>; taking the blob offset of a null pointer is \<open>NullPointer\<close>.
\<close>

datatype fatal = RuntimeError string | OutOfRange | NullPointer

definition bindE :: "fatal + 'a \<Rightarrow> ('a \<Rightarrow> fatal + 'b) \<Rightarrow> fatal + 'b" where
  "bindE x f = (case x of Inl e \<Rightarrow> Inl e | Inr a \<Rightarrow> f a)"

text \<open>Statements run in order; the first failure ends the run.\<close>

fun sequenceE :: "(fatal + 'a) list \<Rightarrow> fatal + 'a list" where
  "sequenceE [] = Inr []"
| "sequenceE (x # xs) = bindE x (\<lambda>a. bindE (sequenceE xs) (\<lambda>as. Inr (a # as)))"

definition at_index :: "'a list \<Rightarrow> nat \<Rightarrow> fatal + 'a" where
  "at_index xs i = (if i < length xs then Inr (xs ! i) else Inl OutOfRange)"

section \<open>Frame scheduler: \<^verbatim>\<open>DeferredRenderer::drawFrame\<close>\<close>

text \<open>\<^verbatim>\<open>VkResult\<close> is a C enum; the three values the function tests are named.\<close>

type_synonym VkResult = int

definition VK_SUCCESS :: VkResult where
  "VK_SUCCESS = 0"

definition VK_SUBOPTIMAL_KHR :: VkResult where
  "VK_SUBOPTIMAL_KHR = 1000001003"

definition VK_ERROR_OUT_OF_DATE_KHR :: VkResult where
  "VK_ERROR_OUT_OF_DATE_KHR = - 1000001004"

definition VK_ERROR_DEVICE_LOST :: VkResult where
  "VK_ERROR_DEVICE_LOST = - 4"

datatype VkQueueFlagBits = VK_QUEUE_GRAPHICS_BIT | VK_QUEUE_COMPUTE_BIT

text \<open>Pipeline stage bits, with the values of the Vulkan headers.\<close>

type_synonym VkFlags = "32 word"





definition VK_PIPELINE_STAGE_COLOR_ATTACHMENT_OUTPUT_BIT :: VkFlags where
  "VK_PIPELINE_STAGE_COLOR_ATTACHMENT_OUTPUT_BIT = 0x400"


text \<open>
  The members of \<^verbatim>\<open>DeferredRenderer\<close> (and of its base class) that \<^verbatim>\<open>drawFrame\<close>
  reads.
\<close>

record frame_objects =
  m_imageAvailableSemaphore :: handle
  m_geomAndLightingCompleteSemaphore :: handle
  m_postEffectSemaphore :: handle
  m_finalOutputFinishedSemaphore :: handle
  m_renderFinishedSemaphore :: handle
  m_geomAndLightingCommandBuffer :: handle
  m_postEffectCommandBuffer :: handle
  m_presentCommandBuffers :: "handle list"

text \<open>
  One batch of \<^verbatim>\<open>queueSubmitNewSubmit(commandBuffers, waitSemaphores, waitStageMasks,
  signalSemaphores)\<close>.
\<close>

record batch =
  commandBuffers :: "handle list"
  waitSemaphores :: "handle list"
  waitStageMasks :: "VkFlags list"
  signalSemaphores :: "handle list"

text \<open>
  The calls \<^verbatim>\<open>drawFrame\<close> makes on the Vulkan manager and on its base class, in
  the order it makes them. What the presentation engine answers (the result of the
  acquisition, the image index, the result of the presentation) is an input of the model.
\<close>

datatype frame_call =
    SwapChainNextImageIndex handle handle
  | RecreateSwapChain
  | BeginQueueSubmit VkQueueFlagBits
  | QueueSubmitNewSubmit batch
  | EndQueueSubmit
  | QueuePresent "handle list" handle

definition geomAndLightingBatch :: "frame_objects \<Rightarrow> batch" where
  "geomAndLightingBatch r =
     \<lparr>commandBuffers = [m_geomAndLightingCommandBuffer r],
      waitSemaphores = [m_imageAvailableSemaphore r],
      waitStageMasks = [VK_PIPELINE_STAGE_COLOR_ATTACHMENT_OUTPUT_BIT],
      signalSemaphores = [m_geomAndLightingCompleteSemaphore r]\<rparr>"

definition postEffectBatch :: "frame_objects \<Rightarrow> batch" where
  "postEffectBatch r =
     \<lparr>commandBuffers = [m_postEffectCommandBuffer r],
      waitSemaphores = [m_geomAndLightingCompleteSemaphore r],
      waitStageMasks = [VK_PIPELINE_STAGE_COLOR_ATTACHMENT_OUTPUT_BIT],
      signalSemaphores = [m_postEffectSemaphore r]\<rparr>"

definition presentBatch :: "frame_objects \<Rightarrow> handle \<Rightarrow> batch" where
  "presentBatch r cb =
     \<lparr>commandBuffers = [cb],
      waitSemaphores = [m_postEffectSemaphore r],
      waitStageMasks = [VK_PIPELINE_STAGE_COLOR_ATTACHMENT_OUTPUT_BIT],
      signalSemaphores = [m_finalOutputFinishedSemaphore r]\<rparr>"

text \<open>
  \<^verbatim>\<open>drawFrame\<close>: the calls made, and how the function ends (\<open>Inr ()\<close> for a normal
  return, \<open>Inl\<close> for an exception). The present command buffer is read from the vector
  while the arguments of the third submission are built, after the first two submissions
  were made.
\<close>

definition drawFrame ::
  "frame_objects \<Rightarrow> VkResult \<Rightarrow> handle \<Rightarrow> VkResult \<Rightarrow> frame_call list \<times> (fatal + unit)" where
  "drawFrame r acquireResult imageIndex presentResult =
     (let acquire = [SwapChainNextImageIndex (m_imageAvailableSemaphore r) UINT32_MAX] in
      if acquireResult = VK_ERROR_OUT_OF_DATE_KHR then
        (acquire @ [RecreateSwapChain], Inr ())
      else if acquireResult \<noteq> VK_SUCCESS \<and> acquireResult \<noteq> VK_SUBOPTIMAL_KHR then
        (acquire, Inl (RuntimeError ''failed to acquire swap chain image!''))
      else
        let first_two = acquire @
              [BeginQueueSubmit VK_QUEUE_GRAPHICS_BIT,
               QueueSubmitNewSubmit (geomAndLightingBatch r),
               QueueSubmitNewSubmit (postEffectBatch r)] in
        case at_index (m_presentCommandBuffers r) (unat imageIndex) of
          Inl e \<Rightarrow> (first_two, Inl e)
        | Inr cb \<Rightarrow>
            let submitted = first_two @
                  [QueueSubmitNewSubmit (presentBatch r cb),
                   EndQueueSubmit,
                   QueuePresent [m_finalOutputFinishedSemaphore r] imageIndex] in
            if presentResult = VK_ERROR_OUT_OF_DATE_KHR \<or> presentResult = VK_SUBOPTIMAL_KHR then
              (submitted @ [RecreateSwapChain], Inr ())
            else if presentResult \<noteq> VK_SUCCESS then
              (submitted, Inl (RuntimeError ''failed to present swap chain image!''))
            else (submitted, Inr ()))"

text \<open>Observers of a frame's calls.\<close>

fun submissions :: "VkQueueFlagBits option \<Rightarrow> frame_call list \<Rightarrow> (VkQueueFlagBits option \<times> batch) list" where
  "submissions q [] = []"
| "submissions q (BeginQueueSubmit q' # cs) = submissions (Some q') cs"
| "submissions q (EndQueueSubmit # cs) = submissions None cs"
| "submissions q (QueueSubmitNewSubmit b # cs) = (q, b) # submissions q cs"
| "submissions q (c # cs) = submissions q cs"

fun presents :: "frame_call list \<Rightarrow> (handle list \<times> handle) list" where
  "presents [] = []"
| "presents (QueuePresent ws i # cs) = (ws, i) # presents cs"
| "presents (c # cs) = presents cs"

definition recreations :: "frame_call list \<Rightarrow> nat" where
  "recreations cs = length (filter (\<lambda>c. c = RecreateSwapChain) cs)"


definition frame0 :: frame_objects where
  "frame0 =
     \<lparr>m_imageAvailableSemaphore = 0,
      m_geomAndLightingCompleteSemaphore = 1,
      m_postEffectSemaphore = 2,
      m_finalOutputFinishedSemaphore = 3,
      m_renderFinishedSemaphore = 4,
      m_geomAndLightingCommandBuffer = 12,
      m_postEffectCommandBuffer = 14,
      m_presentCommandBuffers = [10, 11]\<rparr>"


section \<open>Pass graph: render passes\<close>









datatype VkFormat =
    VK_FORMAT_R8G8B8A8_UNORM
  | VK_FORMAT_R16G16B16A16_SFLOAT
  | VK_FORMAT_R32G32_SFLOAT
  | VK_FORMAT_R32G32B32A32_SFLOAT
  | VK_FORMAT_D32_SFLOAT
  | VK_FORMAT_D32_SFLOAT_S8_UINT
  | VK_FORMAT_D24_UNORM_S8_UINT

datatype VkImageLayout =
    VK_IMAGE_LAYOUT_UNDEFINED
  | VK_IMAGE_LAYOUT_GENERAL
  | VK_IMAGE_LAYOUT_COLOR_ATTACHMENT_OPTIMAL
  | VK_IMAGE_LAYOUT_DEPTH_STENCIL_ATTACHMENT_OPTIMAL
  | VK_IMAGE_LAYOUT_DEPTH_STENCIL_READ_ONLY_OPTIMAL
  | VK_IMAGE_LAYOUT_SHADER_READ_ONLY_OPTIMAL
  | VK_IMAGE_LAYOUT_TRANSFER_SRC_OPTIMAL
  | VK_IMAGE_LAYOUT_PRESENT_SRC_KHR





















subsection \<open>Hazard coverage of input-attachment reads\<close>









section \<open>Resources: images\<close>

record VkExtent2D =
  ext_width :: nat
  ext_height :: nat

text \<open>
  \<^verbatim>\<open>ImageWrapper\<close>: an image with its views and samplers, each a name handed out by the
  Vulkan manager. A wrapper that holds no image has the image name
  \<^verbatim>\<open>std::numeric_limits<uint32_t>::max()\<close> and no views or samplers.
\<close>

record ImageWrapper =
  iw_image :: handle
  iw_imageViews :: "handle list"
  iw_samplers :: "handle list"
  iw_format :: VkFormat
  iw_width :: nat
  iw_height :: nat
  iw_depth :: nat
  iw_mipLevelCount :: nat
  iw_layerCount :: nat





record color_attachments =
  m_gbufferImages :: "ImageWrapper list"
  m_lightingResultImage :: ImageWrapper
  m_postEffectImages :: "ImageWrapper list"


section \<open>Objects the renderer builds, named by the member that holds them\<close>

text \<open>
  Render passes, pipelines, pipeline layouts, descriptor sets and framebuffers are built
  by this file and kept in members of \<^verbatim>\<open>DeferredRenderer\<close>. A recorded command names
  such an object by the member it was read from (for a vector member, with the index).
\<close>

datatype render_pass_member =
    SpecEnvPrefilterRenderPass
  | GeomAndLightRenderPass
  | BloomRenderPass nat
  | FinalOutputRenderPass

datatype pipeline_member =
    BrdfLutPipeline
  | DiffEnvPrefilterPipeline
  | SpecEnvPrefilterPipeline
  | BloomPipeline nat

datatype pipeline_layout_member =
    BrdfLutPipelineLayout
  | DiffEnvPrefilterPipelineLayout
  | SpecEnvPrefilterPipelineLayout
  | BloomPipelineLayout nat

datatype descriptor_set_member =
    BrdfLutDescriptorSet
  | SpecEnvPrefilterDescriptorSet
  | BloomDescriptorSet nat

datatype framebuffer_member =
    DiffEnvPrefilterFramebuffer
  | SpecEnvPrefilterFramebuffer nat
  | GeomAndLightingFramebuffer
  | PostEffectFramebuffer nat

text \<open>A framebuffer: the render pass it is created for and the image views attached.\<close>

record framebuffer =
  fb_renderPass :: render_pass_member
  fb_attachments :: "handle list"

definition createFramebuffer :: "render_pass_member \<Rightarrow> handle list \<Rightarrow> framebuffer" where
  "createFramebuffer rp views = \<lparr>fb_renderPass = rp, fb_attachments = views\<rparr>"

text \<open>Recorded commands (the \<^verbatim>\<open>vkCmd...\<close> calls), with the arguments that vary.\<close>

datatype VkPipelineBindPoint = VK_PIPELINE_BIND_POINT_GRAPHICS | VK_PIPELINE_BIND_POINT_COMPUTE

datatype push_value = PushFloat real | PushU32 "32 word"

datatype command =
    CmdBindVertexBuffers handle
  | CmdBindIndexBuffer handle
  | CmdBeginRenderPass render_pass_member framebuffer_member VkExtent2D nat
  | CmdBindPipeline VkPipelineBindPoint pipeline_member
  | CmdBindDescriptorSets VkPipelineBindPoint pipeline_layout_member descriptor_set_member
  | CmdPushConstants pipeline_layout_member nat nat push_value
  | CmdSetViewport nat nat
  | CmdSetScissor VkExtent2D
  | CmdDraw nat nat nat nat
  | CmdDrawIndexed nat nat nat nat nat
  | CmdDispatch nat nat nat
  | CmdEndRenderPass

section \<open>Bloom: render passes, pipelines, framebuffers, descriptor sets, commands\<close>

definition first_of :: "'a list \<Rightarrow> fatal + 'a" where
  "first_of xs = at_index xs 0"


subsection \<open>Pipelines\<close>













subsection \<open>Framebuffers and descriptor sets of the post-effect passes\<close>



subsection \<open>The post-effect command buffer\<close>








subsection \<open>What a full-screen pass leaves in its colour attachment\<close>







subsection \<open>Reading a command buffer pass by pass\<close>

text \<open>
  What was recorded between one \<^verbatim>\<open>vkCmdBeginRenderPass\<close> and its
  \<^verbatim>\<open>vkCmdEndRenderPass\<close>: the pass, the framebuffer and the render area of the begin,
  then the pipelines and descriptor sets bound, the push constants, viewports and scissors
  set, and the number of draw calls.
\<close>

record recorded_pass =
  rec_renderPass :: render_pass_member
  rec_framebuffer :: framebuffer_member
  rec_renderArea :: VkExtent2D
  rec_pipelines :: "pipeline_member list"
  rec_descriptorSets :: "descriptor_set_member list"
  rec_pushConstants :: "push_value list"
  rec_viewports :: "(nat \<times> nat) list"
  rec_scissors :: "VkExtent2D list"
  rec_draws :: nat

fun record_passes :: "recorded_pass option \<Rightarrow> command list \<Rightarrow> recorded_pass list" where
  "record_passes cur [] = []"
| "record_passes cur (CmdBeginRenderPass rp fb area n # cs) =
     record_passes (Some \<lparr>rec_renderPass = rp, rec_framebuffer = fb, rec_renderArea = area,
        rec_pipelines = [], rec_descriptorSets = [], rec_pushConstants = [],
        rec_viewports = [], rec_scissors = [], rec_draws = 0\<rparr>) cs"
| "record_passes (Some p) (CmdEndRenderPass # cs) = p # record_passes None cs"
| "record_passes (Some p) (CmdBindPipeline bp pl # cs) =
     record_passes (Some (p\<lparr>rec_pipelines := rec_pipelines p @ [pl]\<rparr>)) cs"
| "record_passes (Some p) (CmdBindDescriptorSets bp l s # cs) =
     record_passes (Some (p\<lparr>rec_descriptorSets := rec_descriptorSets p @ [s]\<rparr>)) cs"
| "record_passes (Some p) (CmdPushConstants l off sz v # cs) =
     record_passes (Some (p\<lparr>rec_pushConstants := rec_pushConstants p @ [v]\<rparr>)) cs"
| "record_passes (Some p) (CmdSetViewport w h # cs) =
     record_passes (Some (p\<lparr>rec_viewports := rec_viewports p @ [(w, h)]\<rparr>)) cs"
| "record_passes (Some p) (CmdSetScissor e # cs) =
     record_passes (Some (p\<lparr>rec_scissors := rec_scissors p @ [e]\<rparr>)) cs"
| "record_passes (Some p) (CmdDraw a b c d # cs) =
     record_passes (Some (p\<lparr>rec_draws := Suc (rec_draws p)\<rparr>)) cs"
| "record_passes (Some p) (CmdDrawIndexed a b c d e # cs) =
     record_passes (Some (p\<lparr>rec_draws := Suc (rec_draws p)\<rparr>)) cs"
| "record_passes cur (c # cs) = record_passes cur cs"







section \<open>The uniform blob\<close>

definition ALL_UNIFORM_BLOB_SIZE :: nat where
  "ALL_UNIFORM_BLOB_SIZE = 64 * 1024"

definition NUM_LIGHTS :: nat where
  "NUM_LIGHTS = 2"

text \<open>
  The sizes of the uniform structures of this file. \<^verbatim>\<open>glm::mat4\<close> is 16 floats,
  \<^verbatim>\<open>glm::vec4\<close> 4 floats, \<^verbatim>\<open>glm::vec3\<close> 3 floats, a float and an \<^verbatim>\<open>int\<close> 4 bytes.
\<close>

definition sizeof_float :: nat where
  "sizeof_float = 4"

definition sizeof_mat4 :: nat where
  "sizeof_mat4 = 16 * sizeof_float"

definition sizeof_vec4 :: nat where
  "sizeof_vec4 = 4 * sizeof_float"

definition sizeof_vec3 :: nat where
  "sizeof_vec3 = 3 * sizeof_float"

definition sizeof_CubeMapCameraUniformBuffer :: nat where
  "sizeof_CubeMapCameraUniformBuffer = 6 * sizeof_mat4 + sizeof_mat4"

definition sizeof_TransMatsUniformBuffer :: nat where
  "sizeof_TransMatsUniformBuffer = sizeof_mat4"

definition sizeof_PointLight :: nat where
  "sizeof_PointLight = sizeof_vec4 + sizeof_vec3 + sizeof_float"

definition sizeof_LightingPassUniformBuffer :: nat where
  "sizeof_LightingPassUniformBuffer = sizeof_vec4 + NUM_LIGHTS * sizeof_PointLight"

definition sizeof_DisplayInfoUniformBuffer :: nat where
  "sizeof_DisplayInfoUniformBuffer = 4"

text \<open>
  Modelled from the spec: \<^verbatim>\<open>rj::helper_functions::UniformBlob\<close>, the class of
  \<^verbatim>\<open>m_allUniformHostData\<close>, is not in this file (only its uses are: the template argument
  \<^verbatim>\<open>ALL_UNIFORM_BLOB_SIZE\<close>, \<^verbatim>\<open>setAlignment\<close>, \<^verbatim>\<open>alloc\<close>, \<^verbatim>\<open>offsetOf\<close>,
  \<^verbatim>\<open>size\<close>). The spec: ``a single host-visible, coherently-mapped device buffer
  subdivided (with alignment respecting device minimum offset alignment) into disjoint,
  named regions''; ``every sub-allocation's offset must satisfy device minimum
  uniform-buffer-offset alignment; total size is fixed at buffer-creation time (a capacity
  ceiling, not resizable)''; ``manual offset/pointer arithmetic into a single preallocated
  byte blob''. So: a blob of fixed capacity with a next free byte; an allocation starts at
  the next free byte rounded up to the alignment, and yields no region (a null pointer)
  when the region would pass the capacity. A pointer into the blob is the offset of its
  first byte.
\<close>

record UniformBlob =
  ub_capacity :: nat
  ub_alignment :: nat
  ub_nextStartingByte :: nat

text \<open>Modelled from the spec: a new blob of the given capacity, nothing allocated.\<close>

definition newUniformBlob :: "nat \<Rightarrow> UniformBlob" where
  "newUniformBlob capacity =
     \<lparr>ub_capacity = capacity, ub_alignment = 1, ub_nextStartingByte = 0\<rparr>"

text \<open>Modelled from the spec: \<^verbatim>\<open>UniformBlob::setAlignment\<close>.\<close>

definition setAlignment :: "nat \<Rightarrow> UniformBlob \<Rightarrow> UniformBlob" where
  "setAlignment a b = b\<lparr>ub_alignment := a\<rparr>"

definition align_up :: "nat \<Rightarrow> nat \<Rightarrow> nat" where
  "align_up a n = ((n + a - 1) div a) * a"

text \<open>Modelled from the spec: \<^verbatim>\<open>UniformBlob::alloc\<close>; \<open>None\<close> is the null pointer.\<close>

definition alloc :: "nat \<Rightarrow> UniformBlob \<Rightarrow> nat option \<times> UniformBlob" where
  "alloc sz b =
     (let start = align_up (ub_alignment b) (ub_nextStartingByte b) in
      if start + sz \<le> ub_capacity b
      then (Some start, b\<lparr>ub_nextStartingByte := start + sz\<rparr>)
      else (None, b))"

text \<open>Modelled from the spec: \<^verbatim>\<open>UniformBlob::offsetOf\<close>, the offset of a pointer into the blob.\<close>

definition offsetOf :: "nat option \<Rightarrow> fatal + nat" where
  "offsetOf p = (case p of None \<Rightarrow> Inl NullPointer | Some off \<Rightarrow> Inr off)"

text \<open>One allocation after the other, for a list of sizes.\<close>

fun alloc_each :: "nat list \<Rightarrow> UniformBlob \<Rightarrow> nat option list \<times> UniformBlob" where
  "alloc_each [] b = ([], b)"
| "alloc_each (s # ss) b =
     (let (p, b1) = alloc s b; (ps, b2) = alloc_each ss b1 in (p # ps, b2))"

text \<open>
  The constructor of \<^verbatim>\<open>DeferredRenderer\<close>: the blob member has the capacity
  \<^verbatim>\<open>ALL_UNIFORM_BLOB_SIZE\<close>; its alignment is set to the device's
  \<^verbatim>\<open>minUniformBufferOffsetAlignment\<close>.
\<close>

definition DeferredRenderer_ctor :: "nat \<Rightarrow> UniformBlob" where
  "DeferredRenderer_ctor minUniformBufferOffsetAlignment =
     setAlignment minUniformBufferOffsetAlignment (newUniformBlob ALL_UNIFORM_BLOB_SIZE)"

text \<open>
  A model (\<^verbatim>\<open>VMesh\<close>): its texture maps and its pointer into the uniform blob. The class
  is not part of this file; these are the members this file reads and writes.
\<close>

record VMesh =
  albedoMap :: ImageWrapper
  normalMap :: ImageWrapper
  roughnessMap :: ImageWrapper
  metalnessMap :: ImageWrapper
  aoMap :: ImageWrapper
  uPerModelInfo :: "nat option"

record uniform_pointers =
  m_uCubeViews :: "nat option"
  m_uTransMats :: "nat option"
  m_uLightInfo :: "nat option"
  m_uDisplayInfo :: "nat option"

text \<open>
  The host part of \<^verbatim>\<open>createUniformBuffers\<close>: the four global structures, then one
  \<^verbatim>\<open>PerModelUniformBuffer\<close> for each model. The size of \<^verbatim>\<open>PerModelUniformBuffer\<close>,
  declared elsewhere, is a parameter.
\<close>

definition createUniformBuffers ::
  "nat \<Rightarrow> VMesh list \<Rightarrow> UniformBlob \<Rightarrow> (uniform_pointers \<times> VMesh list) \<times> UniformBlob" where
  "createUniformBuffers sizeof_PerModelUniformBuffer models b0 =
     (let (cube, b1) = alloc sizeof_CubeMapCameraUniformBuffer b0;
          (trans, b2) = alloc sizeof_TransMatsUniformBuffer b1;
          (light, b3) = alloc sizeof_LightingPassUniformBuffer b2;
          (display, b4) = alloc sizeof_DisplayInfoUniformBuffer b3;
          (perModel, b5) = alloc_each (replicate (length models) sizeof_PerModelUniformBuffer) b4
      in ((\<lparr>m_uCubeViews = cube, m_uTransMats = trans, m_uLightInfo = light,
             m_uDisplayInfo = display\<rparr>,
           map (\<lambda>(m, p). m\<lparr>uPerModelInfo := p\<rparr>) (zip models perModel)), b5))"

text \<open>The regions handed out, as (offset, size), in the order of the requests.\<close>

fun regions :: "nat option list \<Rightarrow> nat list \<Rightarrow> (nat \<times> nat) list" where
  "regions (Some off # ps) (s # ss) = (off, s) # regions ps ss"
| "regions (None # ps) (s # ss) = regions ps ss"
| "regions ps ss = []"

definition uniform_regions :: "nat \<Rightarrow> uniform_pointers \<times> VMesh list \<Rightarrow> (nat \<times> nat) list" where
  "uniform_regions sizeof_PerModelUniformBuffer r =
     regions
       ([m_uCubeViews (fst r), m_uTransMats (fst r), m_uLightInfo (fst r), m_uDisplayInfo (fst r)]
        @ map uPerModelInfo (snd r))
       ([sizeof_CubeMapCameraUniformBuffer, sizeof_TransMatsUniformBuffer,
         sizeof_LightingPassUniformBuffer, sizeof_DisplayInfoUniformBuffer]
        @ replicate (length (snd r)) sizeof_PerModelUniformBuffer)"

text \<open>Two regions share a byte.\<close>

definition overlaps :: "nat \<times> nat \<Rightarrow> nat \<times> nat \<Rightarrow> bool" where
  "overlaps r r' = (max (fst r) (fst r') < min (fst r + snd r) (fst r' + snd r'))"

fun pairwise_disjoint :: "(nat \<times> nat) list \<Rightarrow> bool" where
  "pairwise_disjoint [] = True"
| "pairwise_disjoint (r # rs) = (list_all (\<lambda>r'. \<not> overlaps r r') rs \<and> pairwise_disjoint rs)"

text \<open>
  A region handed out between the blob states \<open>b\<close> and \<open>b'\<close>: aligned, inside the part
  of the blob that was free in \<open>b\<close> and is used in \<open>b'\<close>, and inside the capacity.
\<close>

definition region_ok :: "UniformBlob \<Rightarrow> UniformBlob \<Rightarrow> nat \<times> nat \<Rightarrow> bool" where
  "region_ok b b' r =
     (ub_alignment b dvd fst r \<and> ub_nextStartingByte b \<le> fst r
      \<and> fst r + snd r \<le> ub_nextStartingByte b' \<and> fst r + snd r \<le> ub_capacity b)"

text \<open>Concrete models, for evaluation: one without and one with an ambient-occlusion map.\<close>

definition noImage :: ImageWrapper where
  "noImage =
     \<lparr>iw_image = UINT32_MAX, iw_imageViews = [], iw_samplers = [],
      iw_format = VK_FORMAT_R8G8B8A8_UNORM, iw_width = 0, iw_height = 0, iw_depth = 0,
      iw_mipLevelCount = 0, iw_layerCount = 0\<rparr>"

definition texture :: "handle \<Rightarrow> ImageWrapper" where
  "texture n =
     \<lparr>iw_image = n, iw_imageViews = [n + 1], iw_samplers = [n + 2],
      iw_format = VK_FORMAT_R8G8B8A8_UNORM, iw_width = 2048, iw_height = 2048, iw_depth = 1,
      iw_mipLevelCount = 12, iw_layerCount = 1\<rparr>"

definition modelWithoutAO :: VMesh where
  "modelWithoutAO =
     \<lparr>albedoMap = texture 100, normalMap = texture 110, roughnessMap = texture 120,
      metalnessMap = texture 130, aoMap = noImage, uPerModelInfo = None\<rparr>"

definition modelWithAO :: VMesh where
  "modelWithAO =
     \<lparr>albedoMap = texture 200, normalMap = texture 210, roughnessMap = texture 220,
      metalnessMap = texture 230, aoMap = texture 240, uPerModelInfo = None\<rparr>"

section \<open>Descriptor binder\<close>

datatype VkDescriptorType =
    VK_DESCRIPTOR_TYPE_UNIFORM_BUFFER
  | VK_DESCRIPTOR_TYPE_COMBINED_IMAGE_SAMPLER
  | VK_DESCRIPTOR_TYPE_INPUT_ATTACHMENT
  | VK_DESCRIPTOR_TYPE_STORAGE_IMAGE

record DescriptorSetUpdateBufferInfo =
  bufferName :: handle
  offset :: nat
  sizeInBytes :: nat

record DescriptorSetUpdateImageInfo =
  layout :: VkImageLayout
  imageViewName :: handle
  samplerName :: handle

text \<open>
  What is written into a descriptor set between \<^verbatim>\<open>beginUpdateDescriptorSet\<close> and
  \<^verbatim>\<open>endUpdateDescriptorSet\<close> (or by one \<^verbatim>\<open>VkWriteDescriptorSet\<close>): for a binding, buffer
  ranges or images. \<open>WrapperDescriptor\<close> is a write whose image infos come from
  \<^verbatim>\<open>ImageWrapper::getDescriptorInfo\<close>, which is not part of this file: the model keeps
  the wrappers.
\<close>

datatype descriptor_write =
    BufferDescriptor nat VkDescriptorType "DescriptorSetUpdateBufferInfo list"
  | ImageDescriptor nat VkDescriptorType "DescriptorSetUpdateImageInfo list"
  | WrapperDescriptor nat VkDescriptorType "ImageWrapper list"

text \<open>
  The three statements that fill \<^verbatim>\<open>imageInfos[0]\<close> from an image:
  \<^verbatim>\<open>imageViews[0]\<close>, then \<^verbatim>\<open>samplers[0]\<close>, with the layout set before.
\<close>

definition imageInfoOf :: "VkImageLayout \<Rightarrow> ImageWrapper \<Rightarrow> fatal + DescriptorSetUpdateImageInfo" where
  "imageInfoOf l img =
     bindE (first_of (iw_imageViews img)) (\<lambda>view.
     bindE (first_of (iw_samplers img)) (\<lambda>sampler.
       Inr \<lparr>layout = l, imageViewName = view, samplerName = sampler\<rparr>))"

text \<open>\<^verbatim>\<open>createSkyboxDescriptorSet\<close>.\<close>

definition createSkyboxDescriptorSet ::
  "handle \<Rightarrow> uniform_pointers \<Rightarrow> ImageWrapper \<Rightarrow> fatal + descriptor_write list" where
  "createSkyboxDescriptorSet uniformBuffer u radianceMap =
     bindE (offsetOf (m_uTransMats u)) (\<lambda>transMats.
     bindE (imageInfoOf VK_IMAGE_LAYOUT_SHADER_READ_ONLY_OPTIMAL radianceMap) (\<lambda>radiance.
       Inr [BufferDescriptor 0 VK_DESCRIPTOR_TYPE_UNIFORM_BUFFER
              [\<lparr>bufferName = uniformBuffer, offset = transMats,
                sizeInBytes = sizeof_DisplayInfoUniformBuffer\<rparr>],
            ImageDescriptor 1 VK_DESCRIPTOR_TYPE_COMBINED_IMAGE_SAMPLER [radiance]]))"

text \<open>
  The body of the loop of \<^verbatim>\<open>createStaticMeshDescriptorSet\<close> for one model. For binding
  6 the conditional expressions read the albedo map when the model's
  \<^verbatim>\<open>aoMap.image\<close> is \<^verbatim>\<open>std::numeric_limits<uint32_t>::max()\<close> and the ambient-occlusion
  map otherwise; only the chosen map is read.
\<close>

definition staticMeshDescriptorSet ::
  "handle \<Rightarrow> nat \<Rightarrow> uniform_pointers \<Rightarrow> VMesh \<Rightarrow> fatal + descriptor_write list" where
  "staticMeshDescriptorSet uniformBuffer sizeof_PerModelUniformBuffer u m =
     bindE (offsetOf (m_uTransMats u)) (\<lambda>transMats.
     bindE (offsetOf (uPerModelInfo m)) (\<lambda>perModel.
     bindE (imageInfoOf VK_IMAGE_LAYOUT_SHADER_READ_ONLY_OPTIMAL (albedoMap m)) (\<lambda>albedo.
     bindE (imageInfoOf VK_IMAGE_LAYOUT_SHADER_READ_ONLY_OPTIMAL (normalMap m)) (\<lambda>normal.
     bindE (imageInfoOf VK_IMAGE_LAYOUT_SHADER_READ_ONLY_OPTIMAL (roughnessMap m)) (\<lambda>roughness.
     bindE (imageInfoOf VK_IMAGE_LAYOUT_SHADER_READ_ONLY_OPTIMAL (metalnessMap m)) (\<lambda>metalness.
     bindE (if iw_image (aoMap m) = UINT32_MAX
            then first_of (iw_imageViews (albedoMap m))
            else first_of (iw_imageViews (aoMap m))) (\<lambda>aoView.
     bindE (if iw_image (aoMap m) = UINT32_MAX
            then first_of (iw_samplers (albedoMap m))
            else first_of (iw_samplers (aoMap m))) (\<lambda>aoSampler.
       Inr [BufferDescriptor 0 VK_DESCRIPTOR_TYPE_UNIFORM_BUFFER
              [\<lparr>bufferName = uniformBuffer, offset = transMats,
                sizeInBytes = sizeof_TransMatsUniformBuffer\<rparr>],
            BufferDescriptor 1 VK_DESCRIPTOR_TYPE_UNIFORM_BUFFER
              [\<lparr>bufferName = uniformBuffer, offset = perModel,
                sizeInBytes = sizeof_PerModelUniformBuffer\<rparr>],
            ImageDescriptor 2 VK_DESCRIPTOR_TYPE_COMBINED_IMAGE_SAMPLER [albedo],
            ImageDescriptor 3 VK_DESCRIPTOR_TYPE_COMBINED_IMAGE_SAMPLER [normal],
            ImageDescriptor 4 VK_DESCRIPTOR_TYPE_COMBINED_IMAGE_SAMPLER [roughness],
            ImageDescriptor 5 VK_DESCRIPTOR_TYPE_COMBINED_IMAGE_SAMPLER [metalness],
            ImageDescriptor 6 VK_DESCRIPTOR_TYPE_COMBINED_IMAGE_SAMPLER
              [\<lparr>layout = VK_IMAGE_LAYOUT_SHADER_READ_ONLY_OPTIMAL,
                imageViewName = aoView, samplerName = aoSampler\<rparr>]]))))))))"

text \<open>
  \<^verbatim>\<open>createStaticMeshDescriptorSet\<close>: one descriptor set for each model,
  \<^verbatim>\<open>m_geomDescriptorSets[i]\<close> for \<^verbatim>\<open>m_models[i]\<close>.
\<close>

definition createStaticMeshDescriptorSet ::
  "handle \<Rightarrow> nat \<Rightarrow> uniform_pointers \<Rightarrow> VMesh list \<Rightarrow> fatal + descriptor_write list list" where
  "createStaticMeshDescriptorSet uniformBuffer sizeof_PerModelUniformBuffer u models =
     sequenceE (map (staticMeshDescriptorSet uniformBuffer sizeof_PerModelUniformBuffer u) models)"

text \<open>\<^verbatim>\<open>createLightingPassDescriptorSets\<close>.\<close>

definition createLightingPassDescriptorSets ::
  "handle \<Rightarrow> uniform_pointers \<Rightarrow> ImageWrapper list \<Rightarrow> ImageWrapper \<Rightarrow> ImageWrapper
     \<Rightarrow> ImageWrapper \<Rightarrow> ImageWrapper list \<Rightarrow> fatal + descriptor_write list" where
  "createLightingPassDescriptorSets uniformBuffer u gbufferImages depthImage
       diffuseIrradianceMap specularIrradianceMap bakedBRDFs =
     bindE (offsetOf (m_uLightInfo u)) (\<lambda>lightInfo.
     bindE (bindE (at_index gbufferImages 0)
              (imageInfoOf VK_IMAGE_LAYOUT_SHADER_READ_ONLY_OPTIMAL)) (\<lambda>gb0.
     bindE (bindE (at_index gbufferImages 1)
              (imageInfoOf VK_IMAGE_LAYOUT_SHADER_READ_ONLY_OPTIMAL)) (\<lambda>gb1.
     bindE (bindE (at_index gbufferImages 2)
              (imageInfoOf VK_IMAGE_LAYOUT_SHADER_READ_ONLY_OPTIMAL)) (\<lambda>gb2.
     bindE (imageInfoOf VK_IMAGE_LAYOUT_SHADER_READ_ONLY_OPTIMAL depthImage) (\<lambda>depth.
     bindE (imageInfoOf VK_IMAGE_LAYOUT_SHADER_READ_ONLY_OPTIMAL diffuseIrradianceMap) (\<lambda>diff.
     bindE (imageInfoOf VK_IMAGE_LAYOUT_SHADER_READ_ONLY_OPTIMAL specularIrradianceMap) (\<lambda>spec.
     bindE (bindE (at_index bakedBRDFs 0)
              (imageInfoOf VK_IMAGE_LAYOUT_SHADER_READ_ONLY_OPTIMAL)) (\<lambda>brdf.
       Inr [BufferDescriptor 0 VK_DESCRIPTOR_TYPE_UNIFORM_BUFFER
              [\<lparr>bufferName = uniformBuffer, offset = lightInfo,
                sizeInBytes = sizeof_LightingPassUniformBuffer\<rparr>],
            ImageDescriptor 1 VK_DESCRIPTOR_TYPE_INPUT_ATTACHMENT [gb0],
            ImageDescriptor 2 VK_DESCRIPTOR_TYPE_INPUT_ATTACHMENT [gb1],
            ImageDescriptor 3 VK_DESCRIPTOR_TYPE_INPUT_ATTACHMENT [gb2],
            ImageDescriptor 4 VK_DESCRIPTOR_TYPE_INPUT_ATTACHMENT [depth],
            ImageDescriptor 5 VK_DESCRIPTOR_TYPE_COMBINED_IMAGE_SAMPLER [diff],
            ImageDescriptor 6 VK_DESCRIPTOR_TYPE_COMBINED_IMAGE_SAMPLER [spec],
            ImageDescriptor 7 VK_DESCRIPTOR_TYPE_COMBINED_IMAGE_SAMPLER [brdf]]))))))))"

text \<open>
  \<^verbatim>\<open>createFinalOutputPassDescriptorSets\<close>: the buffer info of binding 5 is
  \<^verbatim>\<open>m_allUniformBuffer.getDescriptorInfo(offset, size)\<close>, the buffer with that range.
\<close>

definition createFinalOutputPassDescriptorSets ::
  "handle \<Rightarrow> uniform_pointers \<Rightarrow> color_attachments \<Rightarrow> ImageWrapper
     \<Rightarrow> fatal + descriptor_write list" where
  "createFinalOutputPassDescriptorSets uniformBuffer u ca depthImage =
     bindE (offsetOf (m_uDisplayInfo u)) (\<lambda>displayInfo.
     bindE (at_index (m_gbufferImages ca) 0) (\<lambda>gb0.
     bindE (at_index (m_gbufferImages ca) 1) (\<lambda>gb1.
     bindE (at_index (m_gbufferImages ca) 2) (\<lambda>gb2.
       Inr [BufferDescriptor 5 VK_DESCRIPTOR_TYPE_UNIFORM_BUFFER
              [\<lparr>bufferName = uniformBuffer, offset = displayInfo,
                sizeInBytes = sizeof_DisplayInfoUniformBuffer\<rparr>],
            WrapperDescriptor 0 VK_DESCRIPTOR_TYPE_COMBINED_IMAGE_SAMPLER
              [m_lightingResultImage ca, gb0, gb1, gb2, depthImage]]))))"

text \<open>Observers of a descriptor set's writes.\<close>

fun image_binding :: "nat \<Rightarrow> descriptor_write list \<Rightarrow> DescriptorSetUpdateImageInfo list option" where
  "image_binding b [] = None"
| "image_binding b (ImageDescriptor b' t infos # ws) =
     (if b = b' then Some infos else image_binding b ws)"
| "image_binding b (w # ws) = image_binding b ws"

fun buffer_binding :: "nat \<Rightarrow> descriptor_write list \<Rightarrow> DescriptorSetUpdateBufferInfo list option" where
  "buffer_binding b [] = None"
| "buffer_binding b (BufferDescriptor b' t infos # ws) =
     (if b = b' then Some infos else buffer_binding b ws)"
| "buffer_binding b (w # ws) = buffer_binding b ws"

text \<open>An image that can be bound: it has a view and a sampler.\<close>

definition bindable :: "ImageWrapper \<Rightarrow> bool" where
  "bindable img = (iw_imageViews img \<noteq> [] \<and> iw_samplers img \<noteq> [])"

text \<open>
  A model as the loader leaves it and \<^verbatim>\<open>createUniformBuffers\<close> completes it: the four
  mandatory maps are loaded, the ambient-occlusion map is loaded unless the model has none,
  and the model has its region of the uniform blob.
\<close>

definition model_ready :: "VMesh \<Rightarrow> bool" where
  "model_ready m =
     (uPerModelInfo m \<noteq> None \<and> bindable (albedoMap m) \<and> bindable (normalMap m)
      \<and> bindable (roughnessMap m) \<and> bindable (metalnessMap m)
      \<and> (if iw_image (aoMap m) = UINT32_MAX then True else bindable (aoMap m)))"

text \<open>
  A concrete renderer, for evaluation: the uniform pointers as \<^verbatim>\<open>createUniformBuffers\<close>
  lays them out for an alignment of 256 bytes, and two models.
\<close>

definition uniforms0 :: uniform_pointers where
  "uniforms0 =
     \<lparr>m_uCubeViews = Some 0, m_uTransMats = Some 512, m_uLightInfo = Some 768,
      m_uDisplayInfo = Some 1024\<rparr>"

definition models0 :: "VMesh list" where
  "models0 =
     [modelWithoutAO\<lparr>uPerModelInfo := Some 1280\<rparr>, modelWithAO\<lparr>uPerModelInfo := Some 1536\<rparr>]"

section \<open>Precompute orchestrator\<close>

definition BRDF_LUT_SIZE :: nat where
  "BRDF_LUT_SIZE = 256"

definition BRDF_BASE_DIR :: string where
  "BRDF_BASE_DIR = ''../textures/BRDF_LUTs/''"

definition BRDF_NAME :: string where
  "BRDF_NAME = ''FSchlick_DGGX_GSmith.dds''"

definition PROBE_BASE_DIR :: string where
  "PROBE_BASE_DIR = ''../textures/Environment/PaperMill/''"

text \<open>
  The skybox (\<^verbatim>\<open>m_skybox\<close>): its three environment maps, the four flags of the two
  irradiance maps, and its mesh. The class is not part of this file; these are the members
  this file reads.
\<close>

record Skybox =
  radianceMap :: ImageWrapper
  specularIrradianceMap :: ImageWrapper
  diffuseIrradianceMap :: ImageWrapper
  specMapReady :: bool
  diffMapReady :: bool
  shouldSaveSpecMap :: bool
  shouldSaveDiffMap :: bool
  sky_vertexBuffer :: handle
  sky_indexBuffer :: handle
  sky_numElements :: nat

text \<open>
  Modelled from the spec: \<^verbatim>\<open>Skybox::load\<close> is not in this file (only its call in
  \<^verbatim>\<open>loadAndPrepareAssets\<close> is, which passes an empty file name for an irradiance map
  whose cache file does not exist). The spec: ``for each of BRDF LUT, diffuse irradiance,
  specular irradiance independently check whether a cached result exists on disk; if so,
  load it and mark ready; if not, mark for computation and for post-computation disk
  save''. The images themselves (loaded, or created empty for the computation) are what
  the loader and the Vulkan manager answer, an input of the model.
\<close>

definition Skybox_load :: "Skybox \<Rightarrow> string \<Rightarrow> string \<Rightarrow> Skybox" where
  "Skybox_load images specProbeFileName diffuseProbeFileName =
     images\<lparr>specMapReady := (specProbeFileName \<noteq> ''''),
            shouldSaveSpecMap := (specProbeFileName = ''''),
            diffMapReady := (diffuseProbeFileName \<noteq> ''''),
            shouldSaveDiffMap := (diffuseProbeFileName = '''')\<rparr>"

datatype command_buffer_member = BrdfLutCommandBuffer | EnvPrefilterCommandBuffer

datatype fence_member = BrdfLutFence | EnvPrefilterFence

datatype artifact = BrdfLut | DiffuseIrradiance | SpecularIrradiance

text \<open>What the precomputation does outside the renderer's own members, in order.\<close>

datatype precompute_event =
    LoadTexture2D string
  | CreateImage2D nat nat VkFormat
  | LoadSkybox string string string string
  | QueueSubmit VkQueueFlagBits command_buffer_member fence_member
  | WaitForFences "fence_member list"
  | TransitionImageLayout artifact VkImageLayout VkImageLayout
  | MainLoop
  | SaveImage artifact string
  | DeviceWaitIdle

text \<open>
  The members of the renderer that the precomputation reads and writes. A command buffer
  that was never recorded, and a framebuffer that was never created, is \<open>None\<close>.
\<close>

record precompute =
  m_bakedBrdfReady :: bool
  m_shouldSaveBakedBrdf :: bool
  m_skybox :: Skybox
  m_diffEnvPrefilterFramebuffer :: "framebuffer option"
  m_specEnvPrefilterFramebuffers :: "framebuffer list"
  m_brdfLutCommandBuffer :: "command list option"
  m_envPrefilterCommandBuffer :: "command list option"
  events :: "precompute_event list"

definition new_renderer :: precompute where
  "new_renderer =
     \<lparr>m_bakedBrdfReady = False, m_shouldSaveBakedBrdf = False,
      m_skybox = \<lparr>radianceMap = noImage, specularIrradianceMap = noImage,
        diffuseIrradianceMap = noImage, specMapReady = False, diffMapReady = False,
        shouldSaveSpecMap = False, shouldSaveDiffMap = False,
        sky_vertexBuffer = UINT32_MAX, sky_indexBuffer = UINT32_MAX, sky_numElements = 0\<rparr>,
      m_diffEnvPrefilterFramebuffer = None, m_specEnvPrefilterFramebuffers = [],
      m_brdfLutCommandBuffer = None, m_envPrefilterCommandBuffer = None, events = []\<rparr>"

definition emit :: "precompute_event \<Rightarrow> precompute \<Rightarrow> precompute" where
  "emit ev r = r\<lparr>events := events r @ [ev]\<rparr>"

text \<open>
  What Vulkan answers to the calls whose result the precomputation tests.
\<close>

record vk_answers =
  endBrdfLutCommandBuffer :: VkResult
  endEnvPrefilterCommandBuffer :: VkResult
  submitBrdfLut :: VkResult
  submitEnvPrefilter :: VkResult

text \<open>\<^verbatim>\<open>createComputeResources\<close>; \<open>fileExist\<close> is the file system.\<close>

definition createComputeResources :: "(string \<Rightarrow> bool) \<Rightarrow> precompute \<Rightarrow> precompute" where
  "createComputeResources fileExist r =
     (let brdfFileName = (if fileExist (BRDF_BASE_DIR @ BRDF_NAME)
                          then BRDF_BASE_DIR @ BRDF_NAME else '''') in
      if brdfFileName \<noteq> '''' then
        (emit (LoadTexture2D brdfFileName) r)\<lparr>m_bakedBrdfReady := True\<rparr>
      else
        (emit (CreateImage2D BRDF_LUT_SIZE BRDF_LUT_SIZE VK_FORMAT_R32G32_SFLOAT) r)
          \<lparr>m_shouldSaveBakedBrdf := True\<rparr>)"

text \<open>
  The skybox part of \<^verbatim>\<open>loadAndPrepareAssets\<close>; \<open>images\<close> is the skybox as the loader
  fills it.
\<close>

definition loadAndPrepareAssets :: "(string \<Rightarrow> bool) \<Rightarrow> Skybox \<Rightarrow> precompute \<Rightarrow> precompute" where
  "loadAndPrepareAssets fileExist images r =
     (let skyboxFileName = ''../models/sky_sphere.obj'';
          unfilteredProbeFileName = PROBE_BASE_DIR @ ''Unfiltered_HDR.dds'';
          specProbeFileName = (if fileExist (PROBE_BASE_DIR @ ''Specular_HDR.dds'')
                               then PROBE_BASE_DIR @ ''Specular_HDR.dds'' else '''');
          diffuseProbeFileName = (if fileExist (PROBE_BASE_DIR @ ''Diffuse_HDR.dds'')
                                  then PROBE_BASE_DIR @ ''Diffuse_HDR.dds'' else '''')
      in (emit (LoadSkybox skyboxFileName unfilteredProbeFileName specProbeFileName
                  diffuseProbeFileName) r)
           \<lparr>m_skybox := Skybox_load images specProbeFileName diffuseProbeFileName\<rparr>)"

text \<open>
  The two irradiance blocks of \<^verbatim>\<open>createFramebuffers\<close>: the diffuse framebuffer is
  created only when the diffuse map is not ready, the specular framebuffers (one for each
  mip level, on image view \<open>level + 1\<close>) only when the specular map is not ready.
\<close>

fun specFramebuffers :: "handle list \<Rightarrow> nat list \<Rightarrow> fatal + framebuffer list" where
  "specFramebuffers views [] = Inr []"
| "specFramebuffers views (level # levels) =
     bindE (at_index views (level + 1)) (\<lambda>view.
     bindE (specFramebuffers views levels) (\<lambda>fbs.
       Inr (createFramebuffer SpecEnvPrefilterRenderPass [view] # fbs)))"

definition createPrefilterFramebuffers :: "precompute \<Rightarrow> fatal + precompute" where
  "createPrefilterFramebuffers r =
     bindE (if \<not> diffMapReady (m_skybox r) then
              bindE (first_of (iw_imageViews (diffuseIrradianceMap (m_skybox r)))) (\<lambda>view.
                Inr (r\<lparr>m_diffEnvPrefilterFramebuffer :=
                      Some (createFramebuffer SpecEnvPrefilterRenderPass [view])\<rparr>))
            else Inr r) (\<lambda>r1.
     if \<not> specMapReady (m_skybox r1) then
       bindE (specFramebuffers (iw_imageViews (specularIrradianceMap (m_skybox r1)))
                [0 ..< iw_mipLevelCount (specularIrradianceMap (m_skybox r1))]) (\<lambda>fbs.
         Inr (r1\<lparr>m_specEnvPrefilterFramebuffers := fbs\<rparr>))
     else Inr r1)"

text \<open>\<^verbatim>\<open>createBrdfLutCommandBuffer\<close>.\<close>

definition createBrdfLutCommandBuffer :: "vk_answers \<Rightarrow> precompute \<Rightarrow> fatal + precompute" where
  "createBrdfLutCommandBuffer vk r =
     (if m_bakedBrdfReady r then Inr r
      else
        let bsx = 16; bsy = 16;
            r1 = r\<lparr>m_brdfLutCommandBuffer := Some
              [CmdBindPipeline VK_PIPELINE_BIND_POINT_COMPUTE BrdfLutPipeline,
               CmdBindDescriptorSets VK_PIPELINE_BIND_POINT_COMPUTE BrdfLutPipelineLayout
                 BrdfLutDescriptorSet,
               CmdDispatch (BRDF_LUT_SIZE div bsx) (BRDF_LUT_SIZE div bsy) 1]\<rparr>
        in if endBrdfLutCommandBuffer vk \<noteq> VK_SUCCESS
           then Inl (RuntimeError ''failed to record command buffer!'')
           else Inr r1)"

subsection \<open>The environment prefilter command buffer\<close>

text \<open>
  \<^verbatim>\<open>uint32_t\<close> subtraction of one wraps at zero. The face width of a mip level is
  \<^verbatim>\<open>SPEC_IRRADIANCE_MAP_SIZE / (1 << level)\<close>; the shift is exact for the levels of a mip
  chain (fewer than 31). Roughness values are real numbers: the rounding of \<^verbatim>\<open>float\<close>
  is not modelled, and for a single mip level, where the C++ divides by zero, neither is
  the infinity it yields.
\<close>

definition u32_pred :: "nat \<Rightarrow> nat" where
  "u32_pred n = (if n = 0 then 4294967295 else n - 1)"

definition sizeof_float_push :: nat where
  "sizeof_float_push = 4"

text \<open>The diffuse prefilter pass.\<close>

definition diffusePrefilterPass :: "nat \<Rightarrow> nat \<Rightarrow> command list" where
  "diffusePrefilterPass DIFF_IRRADIANCE_MAP_SIZE numElements =
     [CmdBeginRenderPass SpecEnvPrefilterRenderPass DiffEnvPrefilterFramebuffer
        \<lparr>ext_width = DIFF_IRRADIANCE_MAP_SIZE, ext_height = DIFF_IRRADIANCE_MAP_SIZE\<rparr> 1,
      CmdBindPipeline VK_PIPELINE_BIND_POINT_GRAPHICS DiffEnvPrefilterPipeline,
      CmdBindDescriptorSets VK_PIPELINE_BIND_POINT_GRAPHICS DiffEnvPrefilterPipelineLayout
        SpecEnvPrefilterDescriptorSet,
      CmdSetViewport DIFF_IRRADIANCE_MAP_SIZE DIFF_IRRADIANCE_MAP_SIZE,
      CmdSetScissor \<lparr>ext_width = DIFF_IRRADIANCE_MAP_SIZE, ext_height = DIFF_IRRADIANCE_MAP_SIZE\<rparr>,
      CmdDrawIndexed numElements 1 0 0 0,
      CmdEndRenderPass]"

text \<open>The body of the specular loop for one mip level.\<close>

definition specPrefilterPass :: "nat \<Rightarrow> nat \<Rightarrow> nat \<Rightarrow> real \<Rightarrow> command list" where
  "specPrefilterPass SPEC_IRRADIANCE_MAP_SIZE numElements level roughness =
     (let faceWidth = SPEC_IRRADIANCE_MAP_SIZE div (2 ^ level);
          faceHeight = faceWidth
      in [CmdBeginRenderPass SpecEnvPrefilterRenderPass (SpecEnvPrefilterFramebuffer level)
            \<lparr>ext_width = faceWidth, ext_height = faceHeight\<rparr> 1,
          CmdBindPipeline VK_PIPELINE_BIND_POINT_GRAPHICS SpecEnvPrefilterPipeline,
          CmdBindDescriptorSets VK_PIPELINE_BIND_POINT_GRAPHICS SpecEnvPrefilterPipelineLayout
            SpecEnvPrefilterDescriptorSet,
          CmdPushConstants SpecEnvPrefilterPipelineLayout 0 sizeof_float_push
            (PushFloat roughness),
          CmdSetViewport faceWidth faceHeight,
          CmdSetScissor \<lparr>ext_width = faceWidth, ext_height = faceHeight\<rparr>,
          CmdDrawIndexed numElements 1 0 0 0,
          CmdEndRenderPass])"

text \<open>
  The loop \<^verbatim>\<open>for (uint32_t level = 0; level < mipLevels; ++level)\<close>, from \<open>level\<close> on
  with the roughness accumulated so far. Each iteration reads
  \<^verbatim>\<open>m_specEnvPrefilterFramebuffers[level]\<close>.
\<close>

function specPrefilterLoop ::
  "nat \<Rightarrow> nat \<Rightarrow> framebuffer list \<Rightarrow> nat \<Rightarrow> real \<Rightarrow> nat \<Rightarrow> real \<Rightarrow> fatal + command list" where
  "specPrefilterLoop SPEC numElements fbs mipLevels roughnessDelta level roughness =
     (if level < mipLevels then
        (case at_index fbs level of
           Inl e \<Rightarrow> Inl e
         | Inr fb \<Rightarrow>
             (case specPrefilterLoop SPEC numElements fbs mipLevels roughnessDelta
                     (Suc level) (roughness + roughnessDelta) of
                Inl e \<Rightarrow> Inl e
              | Inr rest \<Rightarrow> Inr (specPrefilterPass SPEC numElements level roughness @ rest)))
      else Inr [])"
  by pat_completeness auto
termination
  by (relation "measure (\<lambda>(S, n, fbs, mipLevels, d, level, r). mipLevels - level)") auto

declare specPrefilterLoop.simps [simp del]

text \<open>
  \<^verbatim>\<open>createEnvPrefilterCommandBuffer\<close>. The sizes \<^verbatim>\<open>DIFF_IRRADIANCE_MAP_SIZE\<close> and
  \<^verbatim>\<open>SPEC_IRRADIANCE_MAP_SIZE\<close> are macros defined elsewhere: parameters. Nothing is
  recorded when both irradiance maps are ready; otherwise the diffuse pass and the
  specular passes are both recorded.
\<close>

definition createEnvPrefilterCommandBuffer ::
  "nat \<Rightarrow> nat \<Rightarrow> vk_answers \<Rightarrow> precompute \<Rightarrow> fatal + precompute" where
  "createEnvPrefilterCommandBuffer DIFF_IRRADIANCE_MAP_SIZE SPEC_IRRADIANCE_MAP_SIZE vk r =
     (if diffMapReady (m_skybox r) \<and> specMapReady (m_skybox r) then Inr r
      else
        let mipLevels = iw_mipLevelCount (specularIrradianceMap (m_skybox r));
            roughnessDelta = 1 / real (u32_pred mipLevels)
        in bindE (specPrefilterLoop SPEC_IRRADIANCE_MAP_SIZE (sky_numElements (m_skybox r))
                    (m_specEnvPrefilterFramebuffers r) mipLevels roughnessDelta 0 0) (\<lambda>spec.
           if endEnvPrefilterCommandBuffer vk \<noteq> VK_SUCCESS
           then Inl (RuntimeError ''failed to record command buffer!'')
           else Inr (r\<lparr>m_envPrefilterCommandBuffer := Some
                  ([CmdBindVertexBuffers (sky_vertexBuffer (m_skybox r)),
                    CmdBindIndexBuffer (sky_indexBuffer (m_skybox r))]
                   @ diffusePrefilterPass DIFF_IRRADIANCE_MAP_SIZE (sky_numElements (m_skybox r))
                   @ spec)\<rparr>)))"


subsection \<open>Running the precomputation\<close>

text \<open>\<^verbatim>\<open>prefilterEnvironmentAndComputeBrdfLut\<close>.\<close>

definition prefilterEnvironmentAndComputeBrdfLut :: "vk_answers \<Rightarrow> precompute \<Rightarrow> fatal + precompute" where
  "prefilterEnvironmentAndComputeBrdfLut vk r =
     bindE (if \<not> m_bakedBrdfReady r then
              if submitBrdfLut vk \<noteq> VK_SUCCESS
              then Inl (RuntimeError ''failed to submit brdf lut command buffer.'')
              else Inr (emit (QueueSubmit VK_QUEUE_COMPUTE_BIT BrdfLutCommandBuffer BrdfLutFence) r,
                        [BrdfLutFence])
            else Inr (r, [])) (\<lambda>(r1, fences1).
     bindE (if \<not> diffMapReady (m_skybox r1) \<or> \<not> specMapReady (m_skybox r1) then
              if submitEnvPrefilter vk \<noteq> VK_SUCCESS
              then Inl (RuntimeError ''failed to submit environment prefilter command buffer.'')
              else Inr (emit (QueueSubmit VK_QUEUE_GRAPHICS_BIT EnvPrefilterCommandBuffer
                                EnvPrefilterFence) r1,
                        fences1 @ [EnvPrefilterFence])
            else Inr (r1, fences1)) (\<lambda>(r2, fences).
     if length fences > 0 then
       let r3 = emit (WaitForFences fences) r2;
           r4 = (if \<not> m_bakedBrdfReady r3
                 then (emit (TransitionImageLayout BrdfLut VK_IMAGE_LAYOUT_GENERAL
                               VK_IMAGE_LAYOUT_SHADER_READ_ONLY_OPTIMAL) r3)
                        \<lparr>m_bakedBrdfReady := True\<rparr>
                 else r3);
           r5 = (if \<not> diffMapReady (m_skybox r4)
                 then emit (TransitionImageLayout DiffuseIrradiance
                              VK_IMAGE_LAYOUT_COLOR_ATTACHMENT_OPTIMAL
                              VK_IMAGE_LAYOUT_SHADER_READ_ONLY_OPTIMAL) r4
                 else r4);
           r6 = (if \<not> specMapReady (m_skybox r5)
                 then emit (TransitionImageLayout SpecularIrradiance
                              VK_IMAGE_LAYOUT_COLOR_ATTACHMENT_OPTIMAL
                              VK_IMAGE_LAYOUT_SHADER_READ_ONLY_OPTIMAL) r5
                 else r5)
       in Inr r6
     else Inr r2))"

text \<open>\<^verbatim>\<open>savePrecomputationResults\<close>: the read-backs and the files written.\<close>

definition savePrecomputationResults :: "precompute \<Rightarrow> precompute" where
  "savePrecomputationResults r =
     (let r1 = (if m_shouldSaveBakedBrdf r
                then emit (SaveImage BrdfLut (BRDF_BASE_DIR @ BRDF_NAME))
                       (emit (TransitionImageLayout BrdfLut
                                VK_IMAGE_LAYOUT_SHADER_READ_ONLY_OPTIMAL
                                VK_IMAGE_LAYOUT_TRANSFER_SRC_OPTIMAL) r)
                else r);
          r2 = (if shouldSaveDiffMap (m_skybox r1)
                then emit (SaveImage DiffuseIrradiance (PROBE_BASE_DIR @ ''Diffuse_HDR.dds''))
                       (emit (TransitionImageLayout DiffuseIrradiance
                                VK_IMAGE_LAYOUT_SHADER_READ_ONLY_OPTIMAL
                                VK_IMAGE_LAYOUT_TRANSFER_SRC_OPTIMAL) r1)
                else r1);
          r3 = (if shouldSaveSpecMap (m_skybox r2)
                then emit (SaveImage SpecularIrradiance (PROBE_BASE_DIR @ ''Specular_HDR.dds''))
                       (emit (TransitionImageLayout SpecularIrradiance
                                VK_IMAGE_LAYOUT_SHADER_READ_ONLY_OPTIMAL
                                VK_IMAGE_LAYOUT_TRANSFER_SRC_OPTIMAL) r2)
                else r2)
      in emit DeviceWaitIdle r3)"

text \<open>
  Modelled from the spec: \<^verbatim>\<open>VBaseGraphics::initVulkan\<close> and \<^verbatim>\<open>mainLoop\<close> are not in this
  file (the base class is declared elsewhere). The spec: the precompute artifacts are
  checked and loaded or created ``during resource-allocation phase'', command buffers are
  recorded once, and the precompute ``runs once at startup'' before ``the steady-state
  loop''. Of \<^verbatim>\<open>initVulkan\<close> the model runs the hooks of this file that touch the
  precomputation, in the order their declarations have in the class (compute resources,
  assets, framebuffers, command buffers: environment prefilter, then BRDF table); the main
  loop is one event.
\<close>

definition initVulkan ::
  "nat \<Rightarrow> nat \<Rightarrow> (string \<Rightarrow> bool) \<Rightarrow> Skybox \<Rightarrow> vk_answers \<Rightarrow> precompute \<Rightarrow> fatal + precompute" where
  "initVulkan DIFF_IRRADIANCE_MAP_SIZE SPEC_IRRADIANCE_MAP_SIZE fileExist images vk r =
     bindE (createPrefilterFramebuffers
              (loadAndPrepareAssets fileExist images (createComputeResources fileExist r))) (\<lambda>r1.
     bindE (createEnvPrefilterCommandBuffer DIFF_IRRADIANCE_MAP_SIZE SPEC_IRRADIANCE_MAP_SIZE
              vk r1)
       (createBrdfLutCommandBuffer vk))"

text \<open>\<^verbatim>\<open>DeferredRenderer::run\<close>.\<close>

definition run ::
  "nat \<Rightarrow> nat \<Rightarrow> (string \<Rightarrow> bool) \<Rightarrow> Skybox \<Rightarrow> vk_answers \<Rightarrow> fatal + precompute" where
  "run DIFF_IRRADIANCE_MAP_SIZE SPEC_IRRADIANCE_MAP_SIZE fileExist images vk =
     bindE (initVulkan DIFF_IRRADIANCE_MAP_SIZE SPEC_IRRADIANCE_MAP_SIZE fileExist images vk
              new_renderer) (\<lambda>r1.
     bindE (prefilterEnvironmentAndComputeBrdfLut vk r1) (\<lambda>r2.
       Inr (savePrecomputationResults (emit MainLoop r2))))"

text \<open>Concrete inputs, for evaluation.\<close>

definition vk_ok :: vk_answers where
  "vk_ok =
     \<lparr>endBrdfLutCommandBuffer = VK_SUCCESS, endEnvPrefilterCommandBuffer = VK_SUCCESS,
      submitBrdfLut = VK_SUCCESS, submitEnvPrefilter = VK_SUCCESS\<rparr>"

text \<open>
  A skybox with a diffuse map of one mip level and a specular map of three mip levels
  (view 0 of the whole map, views 1 to 3 of the levels).
\<close>

definition skybox0 :: Skybox where
  "skybox0 =
     \<lparr>radianceMap = texture 400,
      specularIrradianceMap = (texture 410)\<lparr>iw_imageViews := [411, 413, 414, 415],
         iw_width := 512, iw_height := 512, iw_mipLevelCount := 3, iw_layerCount := 6\<rparr>,
      diffuseIrradianceMap = (texture 420)\<lparr>iw_width := 32, iw_height := 32,
         iw_mipLevelCount := 1, iw_layerCount := 6\<rparr>,
      specMapReady = False, diffMapReady = False,
      shouldSaveSpecMap = False, shouldSaveDiffMap = False,
      sky_vertexBuffer = 430, sky_indexBuffer = 431, sky_numElements = 36\<rparr>"

text \<open>File systems: every cache file present but one, and no cache file at all.\<close>

definition all_but :: "string \<Rightarrow> string \<Rightarrow> bool" where
  "all_but missing path = (path \<noteq> missing)"



chapter \<open>Properties\<close>

lemmas vk_result_defs =
  VK_SUCCESS_def VK_SUBOPTIMAL_KHR_def VK_ERROR_OUT_OF_DATE_KHR_def VK_ERROR_DEVICE_LOST_def





text \<open>
  C3, as the claim states it, fails: a suboptimal acquisition does not skip the frame.
  With \<^verbatim>\<open>VK_SUBOPTIMAL_KHR\<close> from the acquisition (and a successful presentation) the
  three batches are submitted, the image is presented and nothing is recreated.
\<close>

theorem drawFrame_suboptimal_acquire_counterexample:
  "length (submissions None (fst (drawFrame frame0 VK_SUBOPTIMAL_KHR 0 VK_SUCCESS))) = 3
   \<and> presents (fst (drawFrame frame0 VK_SUBOPTIMAL_KHR 0 VK_SUCCESS)) = [([3], 0)]
   \<and> recreations (fst (drawFrame frame0 VK_SUBOPTIMAL_KHR 0 VK_SUCCESS)) = 0
   \<and> snd (drawFrame frame0 VK_SUBOPTIMAL_KHR 0 VK_SUCCESS) = Inr ()"
  by (simp add: drawFrame_def Let_def frame0_def at_index_def vk_result_defs recreations_def)

text \<open>
  C3, amended. When the acquisition reports \<^verbatim>\<open>VK_ERROR_OUT_OF_DATE_KHR\<close>, the swapchain
  resources are recreated and the frame is skipped: no batch is submitted and nothing is
  presented. A \<^verbatim>\<open>VK_SUBOPTIMAL_KHR\<close> acquisition is treated as a successful one: the
  frame runs exactly as for \<^verbatim>\<open>VK_SUCCESS\<close>. After a frame was submitted, a presentation
  that reports out-of-date or suboptimal leads to one recreation and a normal return, a
  successful presentation to none. Every other result of the acquisition or of the
  presentation raises a runtime error (and recreates nothing); for the acquisition, before
  any batch is submitted.
\<close>

theorem drawFrame_recovery_policy:
  "(acquireResult = VK_ERROR_OUT_OF_DATE_KHR \<longrightarrow>
      submissions None (fst (drawFrame r acquireResult imageIndex presentResult)) = []
      \<and> presents (fst (drawFrame r acquireResult imageIndex presentResult)) = []
      \<and> recreations (fst (drawFrame r acquireResult imageIndex presentResult)) = 1
      \<and> snd (drawFrame r acquireResult imageIndex presentResult) = Inr ())
   \<and> (acquireResult = VK_SUBOPTIMAL_KHR \<longrightarrow>
      drawFrame r acquireResult imageIndex presentResult =
      drawFrame r VK_SUCCESS imageIndex presentResult)
   \<and> (acquireResult \<noteq> VK_SUCCESS \<and> acquireResult \<noteq> VK_SUBOPTIMAL_KHR
        \<and> acquireResult \<noteq> VK_ERROR_OUT_OF_DATE_KHR \<longrightarrow>
      submissions None (fst (drawFrame r acquireResult imageIndex presentResult)) = []
      \<and> presents (fst (drawFrame r acquireResult imageIndex presentResult)) = []
      \<and> recreations (fst (drawFrame r acquireResult imageIndex presentResult)) = 0
      \<and> snd (drawFrame r acquireResult imageIndex presentResult) =
          Inl (RuntimeError ''failed to acquire swap chain image!''))
   \<and> ((acquireResult = VK_SUCCESS \<or> acquireResult = VK_SUBOPTIMAL_KHR)
        \<and> unat imageIndex < length (m_presentCommandBuffers r) \<longrightarrow>
      length (submissions None (fst (drawFrame r acquireResult imageIndex presentResult))) = 3
      \<and> (presentResult = VK_ERROR_OUT_OF_DATE_KHR \<or> presentResult = VK_SUBOPTIMAL_KHR \<longrightarrow>
           recreations (fst (drawFrame r acquireResult imageIndex presentResult)) = 1
           \<and> snd (drawFrame r acquireResult imageIndex presentResult) = Inr ())
      \<and> (presentResult = VK_SUCCESS \<longrightarrow>
           recreations (fst (drawFrame r acquireResult imageIndex presentResult)) = 0
           \<and> snd (drawFrame r acquireResult imageIndex presentResult) = Inr ())
      \<and> (presentResult \<noteq> VK_SUCCESS \<and> presentResult \<noteq> VK_SUBOPTIMAL_KHR
           \<and> presentResult \<noteq> VK_ERROR_OUT_OF_DATE_KHR \<longrightarrow>
           recreations (fst (drawFrame r acquireResult imageIndex presentResult)) = 0
           \<and> snd (drawFrame r acquireResult imageIndex presentResult) =
               Inl (RuntimeError ''failed to present swap chain image!'')))"
proof (intro conjI impI)
  assume "acquireResult = VK_SUBOPTIMAL_KHR"
  then show "drawFrame r acquireResult imageIndex presentResult =
      drawFrame r VK_SUCCESS imageIndex presentResult"
    by (simp add: drawFrame_def vk_result_defs)
qed (auto simp: drawFrame_def Let_def at_index_def vk_result_defs recreations_def)

theorem drawFrame_recovery_policy_witness:
  "fst (drawFrame frame0 VK_ERROR_OUT_OF_DATE_KHR 0 VK_SUCCESS) =
     [SwapChainNextImageIndex 0 UINT32_MAX, RecreateSwapChain]
   \<and> snd (drawFrame frame0 VK_ERROR_OUT_OF_DATE_KHR 0 VK_SUCCESS) = Inr ()
   \<and> drawFrame frame0 VK_SUBOPTIMAL_KHR 0 VK_SUCCESS = drawFrame frame0 VK_SUCCESS 0 VK_SUCCESS
   \<and> snd (drawFrame frame0 VK_ERROR_DEVICE_LOST 0 VK_SUCCESS) =
       Inl (RuntimeError ''failed to acquire swap chain image!'')
   \<and> submissions None (fst (drawFrame frame0 VK_ERROR_DEVICE_LOST 0 VK_SUCCESS)) = []
   \<and> recreations (fst (drawFrame frame0 VK_SUCCESS 0 VK_SUBOPTIMAL_KHR)) = 1
   \<and> snd (drawFrame frame0 VK_SUCCESS 0 VK_SUBOPTIMAL_KHR) = Inr ()
   \<and> recreations (fst (drawFrame frame0 VK_SUCCESS 0 VK_ERROR_OUT_OF_DATE_KHR)) = 1
   \<and> recreations (fst (drawFrame frame0 VK_SUCCESS 0 VK_SUCCESS)) = 0
   \<and> snd (drawFrame frame0 VK_SUCCESS 0 VK_ERROR_DEVICE_LOST) =
       Inl (RuntimeError ''failed to present swap chain image!'')
   \<and> length (submissions None (fst (drawFrame frame0 VK_SUCCESS 0 VK_ERROR_DEVICE_LOST))) = 3"
proof -
  have len: "unat (0::handle) < length (m_presentCommandBuffers frame0)"
    by (simp add: frame0_def)
  have d: "VK_ERROR_DEVICE_LOST \<noteq> VK_SUCCESS" "VK_ERROR_DEVICE_LOST \<noteq> VK_SUBOPTIMAL_KHR"
    "VK_ERROR_DEVICE_LOST \<noteq> VK_ERROR_OUT_OF_DATE_KHR"
    by (simp_all add: vk_result_defs)
  note p = drawFrame_recovery_policy [of _ frame0 0]
  have a: "snd (drawFrame frame0 VK_ERROR_OUT_OF_DATE_KHR 0 VK_SUCCESS) = Inr ()"
    using p [of VK_ERROR_OUT_OF_DATE_KHR VK_SUCCESS] by simp
  have b: "drawFrame frame0 VK_SUBOPTIMAL_KHR 0 VK_SUCCESS = drawFrame frame0 VK_SUCCESS 0 VK_SUCCESS"
    using p [of VK_SUBOPTIMAL_KHR VK_SUCCESS] by simp
  have c: "snd (drawFrame frame0 VK_ERROR_DEVICE_LOST 0 VK_SUCCESS) =
       Inl (RuntimeError ''failed to acquire swap chain image!'')
     \<and> submissions None (fst (drawFrame frame0 VK_ERROR_DEVICE_LOST 0 VK_SUCCESS)) = []"
    using p [of VK_ERROR_DEVICE_LOST VK_SUCCESS] d by simp
  have e: "recreations (fst (drawFrame frame0 VK_SUCCESS 0 VK_SUBOPTIMAL_KHR)) = 1
     \<and> snd (drawFrame frame0 VK_SUCCESS 0 VK_SUBOPTIMAL_KHR) = Inr ()"
    using p [of VK_SUCCESS VK_SUBOPTIMAL_KHR] len by simp
  have f: "recreations (fst (drawFrame frame0 VK_SUCCESS 0 VK_ERROR_OUT_OF_DATE_KHR)) = 1"
    using p [of VK_SUCCESS VK_ERROR_OUT_OF_DATE_KHR] len by simp
  have g: "recreations (fst (drawFrame frame0 VK_SUCCESS 0 VK_SUCCESS)) = 0"
    using p [of VK_SUCCESS VK_SUCCESS] len by simp
  have h: "snd (drawFrame frame0 VK_SUCCESS 0 VK_ERROR_DEVICE_LOST) =
       Inl (RuntimeError ''failed to present swap chain image!'')
     \<and> length (submissions None (fst (drawFrame frame0 VK_SUCCESS 0 VK_ERROR_DEVICE_LOST))) = 3"
    using p [of VK_SUCCESS VK_ERROR_DEVICE_LOST] len d by simp
  have t: "fst (drawFrame frame0 VK_ERROR_OUT_OF_DATE_KHR 0 VK_SUCCESS) =
     [SwapChainNextImageIndex 0 UINT32_MAX, RecreateSwapChain]"
    by (simp add: drawFrame_def frame0_def)
  show ?thesis using a b c e f g h t by simp
qed

section \<open>Render pass dependencies\<close>










section \<open>The bloom sub-pipeline\<close>













section \<open>Uniform blob allocation\<close>

lemma align_up_dvd: "a dvd align_up a n"
  by (simp add: align_up_def)

lemma align_up_ge: "0 < a \<Longrightarrow> n \<le> align_up a n"
proof -
  assume a: "0 < a"
  have "(n + a - 1) div a * a + (n + a - 1) mod a = n + a - 1"
    by simp
  moreover have "(n + a - 1) mod a < a" using a by simp
  ultimately show ?thesis unfolding align_up_def by linarith
qed

lemma alloc_Some:
  assumes "alloc s b = (Some off, b')" and "0 < ub_alignment b"
  shows "ub_alignment b dvd off" "ub_nextStartingByte b \<le> off"
    "ub_nextStartingByte b' = off + s" "off + s \<le> ub_capacity b"
    "ub_alignment b' = ub_alignment b" "ub_capacity b' = ub_capacity b"
  using assms align_up_ge [of "ub_alignment b" "ub_nextStartingByte b"]
  by (auto simp: alloc_def Let_def align_up_dvd split: if_splits)

lemma alloc_None: "alloc s b = (None, b') \<Longrightarrow> b' = b"
  by (auto simp: alloc_def Let_def split: if_splits)

lemma alloc_each_regions:
  assumes "0 < ub_alignment b" and "alloc_each ss b = (ps, b')"
  shows "list_all (region_ok b b') (regions ps ss) \<and> pairwise_disjoint (regions ps ss)
     \<and> ub_nextStartingByte b \<le> ub_nextStartingByte b'
     \<and> ub_alignment b' = ub_alignment b \<and> ub_capacity b' = ub_capacity b
     \<and> length ps = length ss"
  using assms
proof (induction ss arbitrary: b ps b')
  case Nil
  then show ?case by simp
next
  case (Cons s ss)
  obtain p b1 where a1: "alloc s b = (p, b1)" by (cases "alloc s b")
  obtain qs b2 where a2: "alloc_each ss b1 = (qs, b2)" by (cases "alloc_each ss b1")
  from Cons.prems(2) a1 a2 have ps: "ps = p # qs" and b': "b' = b2" by auto
  show ?case
  proof (cases p)
    case None
    with a1 have b1: "b1 = b" by (simp add: alloc_None)
    note ih = Cons.IH [OF Cons.prems(1) a2 [unfolded b1]]
    have reg: "regions ps (s # ss) = regions qs ss"
      using None ps by simp
    have len: "length ps = Suc (length qs)"
      using ps by simp
    show ?thesis
      unfolding reg b' len using ih by simp
  next
    case (Some off)
    note s = alloc_Some [OF a1 [unfolded Some] Cons.prems(1)]
    from s Cons.prems(1) have pos: "0 < ub_alignment b1" by simp
    note ih = Cons.IH [OF pos a2]
    have ih1: "list_all (region_ok b1 b2) (regions qs ss)"
      and ih2: "pairwise_disjoint (regions qs ss)"
      and ih3: "ub_nextStartingByte b1 \<le> ub_nextStartingByte b2"
      and ih4: "ub_alignment b2 = ub_alignment b1" "ub_capacity b2 = ub_capacity b1"
        "length qs = length ss"
      using ih by simp_all
    have step: "region_ok b b2 r \<and> \<not> overlaps (off, s) r" if "region_ok b1 b2 r" for r
      using that s(1-6) by (auto simp: region_ok_def overlaps_def)
    have rest: "list_all (region_ok b b2) (regions qs ss)"
      using ih1 step unfolding list_all_iff by blast
    have sep: "list_all (\<lambda>r'. \<not> overlaps (off, s) r') (regions qs ss)"
      using ih1 step unfolding list_all_iff by blast
    have hd: "region_ok b b2 (off, s)"
      using ih3 s(1-6) by (simp add: region_ok_def)
    have reg: "regions ps (s # ss) = (off, s) # regions qs ss"
      using Some ps by simp
    show ?thesis
      unfolding reg b' using rest sep hd ih2 ih3 ih4 s(3,5,6) s(2) ps by simp
  qed
qed

lemma alloc_each_append:
  "alloc_each (xs @ ys) b =
     (let (ps, b1) = alloc_each xs b; (qs, b2) = alloc_each ys b1 in (ps @ qs, b2))"
  by (induction xs arbitrary: b) (auto simp: Let_def split: prod.splits)

lemma alloc_each_length: "length (fst (alloc_each ss b)) = length ss"
proof (induction ss arbitrary: b)
  case Nil
  show ?case by simp
next
  case (Cons s ss)
  obtain p b1 where a1: "alloc s b = (p, b1)" by (cases "alloc s b")
  obtain qs b2 where a2: "alloc_each ss b1 = (qs, b2)" by (cases "alloc_each ss b1")
  from Cons.IH [of b1] a1 a2 show ?case by simp
qed

lemma createUniformBuffers_regions:
  "uniform_regions sz (fst (createUniformBuffers sz models b0)) =
     regions
       (fst (alloc_each
          ([sizeof_CubeMapCameraUniformBuffer, sizeof_TransMatsUniformBuffer,
            sizeof_LightingPassUniformBuffer, sizeof_DisplayInfoUniformBuffer]
           @ replicate (length models) sz) b0))
       ([sizeof_CubeMapCameraUniformBuffer, sizeof_TransMatsUniformBuffer,
         sizeof_LightingPassUniformBuffer, sizeof_DisplayInfoUniformBuffer]
        @ replicate (length models) sz)
   \<and> snd (createUniformBuffers sz models b0) =
     snd (alloc_each
          ([sizeof_CubeMapCameraUniformBuffer, sizeof_TransMatsUniformBuffer,
            sizeof_LightingPassUniformBuffer, sizeof_DisplayInfoUniformBuffer]
           @ replicate (length models) sz) b0)"
proof -
  obtain cube b1 where a1: "alloc sizeof_CubeMapCameraUniformBuffer b0 = (cube, b1)"
    by (cases "alloc sizeof_CubeMapCameraUniformBuffer b0")
  obtain trans b2 where a2: "alloc sizeof_TransMatsUniformBuffer b1 = (trans, b2)"
    by (cases "alloc sizeof_TransMatsUniformBuffer b1")
  obtain light b3 where a3: "alloc sizeof_LightingPassUniformBuffer b2 = (light, b3)"
    by (cases "alloc sizeof_LightingPassUniformBuffer b2")
  obtain disp b4 where a4: "alloc sizeof_DisplayInfoUniformBuffer b3 = (disp, b4)"
    by (cases "alloc sizeof_DisplayInfoUniformBuffer b3")
  obtain perModel b5 where a5: "alloc_each (replicate (length models) sz) b4 = (perModel, b5)"
    by (cases "alloc_each (replicate (length models) sz) b4")
  have len: "length perModel = length models"
    using alloc_each_length [of "replicate (length models) sz" b4] a5 by simp
  have ptrs: "map (uPerModelInfo \<circ> (\<lambda>(m, p). m\<lparr>uPerModelInfo := p\<rparr>)) (zip models perModel) =
      perModel"
  proof -
    have "map (uPerModelInfo \<circ> (\<lambda>(m, p). m\<lparr>uPerModelInfo := p\<rparr>)) (zip models perModel) =
        map snd (zip models perModel)"
      by (simp add: case_prod_beta comp_def)
    then show ?thesis using len by simp
  qed
  have c: "createUniformBuffers sz models b0 =
      ((\<lparr>m_uCubeViews = cube, m_uTransMats = trans, m_uLightInfo = light, m_uDisplayInfo = disp\<rparr>,
        map (\<lambda>(m, p). m\<lparr>uPerModelInfo := p\<rparr>) (zip models perModel)), b5)"
    by (simp add: createUniformBuffers_def a1 a2 a3 a4 a5)
  have e: "alloc_each
          ([sizeof_CubeMapCameraUniformBuffer, sizeof_TransMatsUniformBuffer,
            sizeof_LightingPassUniformBuffer, sizeof_DisplayInfoUniformBuffer]
           @ replicate (length models) sz) b0 = ([cube, trans, light, disp] @ perModel, b5)"
    by (simp add: a1 a2 a3 a4 a5)
  show ?thesis
    unfolding c e by (simp add: uniform_regions_def ptrs len)
qed

text \<open>
  C5 (against the allocator modelled from the spec). The blob of the renderer has the
  capacity \<^verbatim>\<open>ALL_UNIFORM_BLOB_SIZE\<close>, 64 KiB, from its construction on, and no allocation
  changes it. With a positive minimum uniform-buffer-offset alignment set at construction,
  for every sequence of allocation requests, and in particular for the requests of
  \<^verbatim>\<open>createUniformBuffers\<close> (the four global structures, then one per-model structure
  for each model), every region handed out starts at a multiple of the alignment, lies
  inside the capacity, and no two regions overlap.
\<close>

theorem uniform_blob_allocations:
  assumes a: "0 < a"
  shows "ub_capacity (DeferredRenderer_ctor a) = ALL_UNIFORM_BLOB_SIZE
       \<and> ALL_UNIFORM_BLOB_SIZE = 65536
       \<and> ub_capacity (snd (alloc_each ss (DeferredRenderer_ctor a))) = ALL_UNIFORM_BLOB_SIZE
       \<and> list_all (\<lambda>r. a dvd fst r \<and> fst r + snd r \<le> ALL_UNIFORM_BLOB_SIZE)
            (regions (fst (alloc_each ss (DeferredRenderer_ctor a))) ss)
       \<and> pairwise_disjoint (regions (fst (alloc_each ss (DeferredRenderer_ctor a))) ss)
       \<and> ub_capacity (snd (createUniformBuffers sz models (DeferredRenderer_ctor a))) =
            ALL_UNIFORM_BLOB_SIZE
       \<and> list_all (\<lambda>r. a dvd fst r \<and> fst r + snd r \<le> ALL_UNIFORM_BLOB_SIZE)
            (uniform_regions sz (fst (createUniformBuffers sz models (DeferredRenderer_ctor a))))
       \<and> pairwise_disjoint
            (uniform_regions sz (fst (createUniformBuffers sz models (DeferredRenderer_ctor a))))"
proof -
  let ?b = "DeferredRenderer_ctor a"
  have b: "ub_alignment ?b = a" "ub_capacity ?b = ALL_UNIFORM_BLOB_SIZE"
    by (simp_all add: DeferredRenderer_ctor_def setAlignment_def newUniformBlob_def)
  have gen: "ub_capacity (snd (alloc_each ts ?b)) = ALL_UNIFORM_BLOB_SIZE
      \<and> list_all (\<lambda>r. a dvd fst r \<and> fst r + snd r \<le> ALL_UNIFORM_BLOB_SIZE)
            (regions (fst (alloc_each ts ?b)) ts)
      \<and> pairwise_disjoint (regions (fst (alloc_each ts ?b)) ts)" for ts
  proof -
    obtain ps b' where e: "alloc_each ts ?b = (ps, b')" by (cases "alloc_each ts ?b")
    from a b have "0 < ub_alignment ?b" by simp
    from alloc_each_regions [OF this e]
    have "list_all (region_ok ?b b') (regions ps ts)" "pairwise_disjoint (regions ps ts)"
      "ub_capacity b' = ub_capacity ?b"
      by simp_all
    then show ?thesis
      unfolding e using b by (auto simp: list_all_iff region_ok_def)
  qed
  have size: "ALL_UNIFORM_BLOB_SIZE = 65536"
    by (simp add: ALL_UNIFORM_BLOB_SIZE_def)
  let ?S = "[sizeof_CubeMapCameraUniformBuffer, sizeof_TransMatsUniformBuffer,
         sizeof_LightingPassUniformBuffer, sizeof_DisplayInfoUniformBuffer]
        @ replicate (length models) sz"
  have cu: "uniform_regions sz (fst (createUniformBuffers sz models ?b)) =
      regions (fst (alloc_each ?S ?b)) ?S"
    and cs: "snd (createUniformBuffers sz models ?b) = snd (alloc_each ?S ?b)"
    using createUniformBuffers_regions [of sz models ?b] by blast+
  show ?thesis
    unfolding cu cs using gen [of ss] gen [of ?S] b(2) size by blast
qed

theorem uniform_blob_allocations_witness:
  "uniform_regions 128 (fst (createUniformBuffers 128 [modelWithoutAO] (DeferredRenderer_ctor 256))) =
     [(0, 448), (512, 64), (768, 80), (1024, 4), (1280, 128)]
   \<and> pairwise_disjoint [(0, 448), (512, 64), (768, 80), (1024, 4), (1280, 128)]
   \<and> list_all (\<lambda>r. (256::nat) dvd fst r \<and> fst r + snd r \<le> 65536)
        [(0, 448), (512, 64), (768, 80), (1024, 4), (1280, 128)]"
proof -
  have r: "uniform_regions 128
      (fst (createUniformBuffers 128 [modelWithoutAO] (DeferredRenderer_ctor 256))) =
     [(0, 448), (512, 64), (768, 80), (1024, 4), (1280, 128)]"
    by (simp add: createUniformBuffers_def uniform_regions_def alloc_def align_up_def Let_def
        DeferredRenderer_ctor_def setAlignment_def newUniformBlob_def ALL_UNIFORM_BLOB_SIZE_def
        sizeof_CubeMapCameraUniformBuffer_def sizeof_TransMatsUniformBuffer_def
        sizeof_LightingPassUniformBuffer_def sizeof_DisplayInfoUniformBuffer_def
        sizeof_PointLight_def sizeof_mat4_def sizeof_vec4_def sizeof_vec3_def sizeof_float_def
        NUM_LIGHTS_def)
  have "(0::nat) < 256" by simp
  from uniform_blob_allocations [OF this, of "[]" 128 "[modelWithoutAO]"]
  show ?thesis unfolding r by (simp add: ALL_UNIFORM_BLOB_SIZE_def)
qed


section \<open>Descriptor sets\<close>

lemma sequenceE_map_Inr:
  assumes "list_all (\<lambda>m. \<exists>x. f m = Inr x) ms"
  shows "\<exists>xs. sequenceE (map f ms) = Inr xs \<and> length xs = length ms
           \<and> (\<forall>i<length ms. f (ms ! i) = Inr (xs ! i))"
  using assms
proof (induction ms)
  case Nil
  show ?case by simp
next
  case (Cons m ms)
  from Cons.prems obtain x where x: "f m = Inr x" by auto
  from Cons obtain xs where xs: "sequenceE (map f ms) = Inr xs" "length xs = length ms"
    "\<forall>i<length ms. f (ms ! i) = Inr (xs ! i)" by auto
  have "sequenceE (map f (m # ms)) = Inr (x # xs)"
    by (simp add: x xs bindE_def)
  moreover have "\<forall>i<length (m # ms). f ((m # ms) ! i) = Inr ((x # xs) ! i)"
    using x xs(3) by (auto simp: nth_Cons split: nat.splits)
  ultimately show ?case using xs(2) by auto
qed

lemma imageInfoOf_bindable:
  "bindable img \<Longrightarrow>
   imageInfoOf l img =
     Inr \<lparr>layout = l, imageViewName = hd (iw_imageViews img), samplerName = hd (iw_samplers img)\<rparr>"
  by (cases "iw_imageViews img"; cases "iw_samplers img")
    (simp_all add: bindable_def imageInfoOf_def first_of_def at_index_def bindE_def)

lemma first_of_hd: "xs \<noteq> [] \<Longrightarrow> first_of xs = Inr (hd xs)"
  by (cases xs) (simp_all add: first_of_def at_index_def)

lemma staticMesh_ao_binding:
  assumes "model_ready m" and "m_uTransMats u \<noteq> None"
  shows "\<exists>ws. staticMeshDescriptorSet buf sz u m = Inr ws
       \<and> image_binding 6 ws =
           Some [\<lparr>layout = VK_IMAGE_LAYOUT_SHADER_READ_ONLY_OPTIMAL,
                  imageViewName =
                    (if iw_image (aoMap m) = UINT32_MAX then hd (iw_imageViews (albedoMap m))
                     else hd (iw_imageViews (aoMap m))),
                  samplerName =
                    (if iw_image (aoMap m) = UINT32_MAX then hd (iw_samplers (albedoMap m))
                     else hd (iw_samplers (aoMap m)))\<rparr>]
       \<and> image_binding 2 ws =
           Some [\<lparr>layout = VK_IMAGE_LAYOUT_SHADER_READ_ONLY_OPTIMAL,
                  imageViewName = hd (iw_imageViews (albedoMap m)),
                  samplerName = hd (iw_samplers (albedoMap m))\<rparr>]"
proof -
  from assms obtain t p where tp: "m_uTransMats u = Some t" "uPerModelInfo m = Some p"
    by (auto simp: model_ready_def)
  from assms(1) have b: "bindable (albedoMap m)" "bindable (normalMap m)"
    "bindable (roughnessMap m)" "bindable (metalnessMap m)"
    by (simp_all add: model_ready_def)
  show ?thesis
  proof (cases "iw_image (aoMap m) = UINT32_MAX")
    case True
    with b show ?thesis
      by (simp add: staticMeshDescriptorSet_def tp offsetOf_def bindE_def imageInfoOf_bindable
          first_of_hd bindable_def)
  next
    case False
    with assms(1) have "bindable (aoMap m)" by (simp add: model_ready_def)
    with b False show ?thesis
      by (simp add: staticMeshDescriptorSet_def tp offsetOf_def bindE_def imageInfoOf_bindable
          first_of_hd bindable_def)
  qed
qed

text \<open>
  C9. For models that are ready to be bound, \<^verbatim>\<open>createStaticMeshDescriptorSet\<close> succeeds
  and writes one set per model; in the set of every model, binding 6 (the ambient-occlusion
  binding) is written with one combined image sampler: for a model whose
  ambient-occlusion map is absent (its image name is the maximum \<^verbatim>\<open>uint32_t\<close>) it is the
  albedo map's view and sampler, the same image info as binding 2; for a model whose
  ambient-occlusion map is present it is that map's own view and sampler. Binding 6 is
  never left unwritten.
\<close>

theorem ao_binding_fallback:
  assumes ready: "list_all model_ready models"
    and trans: "m_uTransMats u \<noteq> None"
    and i: "i < length models"
  shows "\<exists>sets. createStaticMeshDescriptorSet buf sz u models = Inr sets
       \<and> length sets = length models
       \<and> image_binding 6 (sets ! i) =
           Some [\<lparr>layout = VK_IMAGE_LAYOUT_SHADER_READ_ONLY_OPTIMAL,
                  imageViewName =
                    (if iw_image (aoMap (models ! i)) = UINT32_MAX
                     then hd (iw_imageViews (albedoMap (models ! i)))
                     else hd (iw_imageViews (aoMap (models ! i)))),
                  samplerName =
                    (if iw_image (aoMap (models ! i)) = UINT32_MAX
                     then hd (iw_samplers (albedoMap (models ! i)))
                     else hd (iw_samplers (aoMap (models ! i))))\<rparr>]
       \<and> (if iw_image (aoMap (models ! i)) = UINT32_MAX
          then image_binding 6 (sets ! i) = image_binding 2 (sets ! i)
          else True)"
proof -
  let ?f = "staticMeshDescriptorSet buf sz u"
  have "list_all (\<lambda>m. \<exists>x. ?f m = Inr x) models"
    using ready staticMesh_ao_binding [OF _ trans] unfolding list_all_iff by blast
  from sequenceE_map_Inr [OF this] obtain sets where
    sets: "sequenceE (map ?f models) = Inr sets" "length sets = length models"
      "\<forall>j<length models. ?f (models ! j) = Inr (sets ! j)"
    by blast
  from ready i have "model_ready (models ! i)" by (simp add: list_all_length)
  from staticMesh_ao_binding [OF this trans, of buf sz] sets(3) i
  have "image_binding 6 (sets ! i) =
           Some [\<lparr>layout = VK_IMAGE_LAYOUT_SHADER_READ_ONLY_OPTIMAL,
                  imageViewName =
                    (if iw_image (aoMap (models ! i)) = UINT32_MAX
                     then hd (iw_imageViews (albedoMap (models ! i)))
                     else hd (iw_imageViews (aoMap (models ! i)))),
                  samplerName =
                    (if iw_image (aoMap (models ! i)) = UINT32_MAX
                     then hd (iw_samplers (albedoMap (models ! i)))
                     else hd (iw_samplers (aoMap (models ! i))))\<rparr>]"
    and "image_binding 2 (sets ! i) =
           Some [\<lparr>layout = VK_IMAGE_LAYOUT_SHADER_READ_ONLY_OPTIMAL,
                  imageViewName = hd (iw_imageViews (albedoMap (models ! i))),
                  samplerName = hd (iw_samplers (albedoMap (models ! i)))\<rparr>]"
    by auto
  then show ?thesis
    using sets(1,2) by (auto simp: createStaticMeshDescriptorSet_def)
qed


theorem ao_binding_fallback_witness:
  "(\<exists>sets. createStaticMeshDescriptorSet 7 128 uniforms0 models0 = Inr sets
      \<and> length sets = 2
      \<and> image_binding 6 (sets ! 0) =
          Some [\<lparr>layout = VK_IMAGE_LAYOUT_SHADER_READ_ONLY_OPTIMAL,
                 imageViewName = 101, samplerName = 102\<rparr>]
      \<and> image_binding 6 (sets ! 0) = image_binding 2 (sets ! 0))
   \<and> (\<exists>sets. createStaticMeshDescriptorSet 7 128 uniforms0 models0 = Inr sets
      \<and> image_binding 6 (sets ! 1) =
          Some [\<lparr>layout = VK_IMAGE_LAYOUT_SHADER_READ_ONLY_OPTIMAL,
                 imageViewName = 241, samplerName = 242\<rparr>])"
proof -
  have ready: "list_all model_ready models0"
    by (simp add: models0_def model_ready_def bindable_def modelWithoutAO_def modelWithAO_def
        texture_def noImage_def UINT32_MAX_def)
  have trans: "m_uTransMats uniforms0 \<noteq> None"
    by (simp add: uniforms0_def)
  have len: "length models0 = 2" "0 < length models0" "1 < length models0"
    by (simp_all add: models0_def)
  have m0: "iw_image (aoMap (models0 ! 0)) = UINT32_MAX"
    "hd (iw_imageViews (albedoMap (models0 ! 0))) = 101"
    "hd (iw_samplers (albedoMap (models0 ! 0))) = 102"
    by (simp_all add: models0_def modelWithoutAO_def texture_def noImage_def)
  have m1: "iw_image (aoMap (models0 ! 1)) \<noteq> UINT32_MAX"
    "hd (iw_imageViews (aoMap (models0 ! 1))) = 241"
    "hd (iw_samplers (aoMap (models0 ! 1))) = 242"
    by (simp_all add: models0_def modelWithAO_def texture_def UINT32_MAX_def)
  from ao_binding_fallback [OF ready trans len(2), of 7 128]
  have a: "\<exists>sets. createStaticMeshDescriptorSet 7 128 uniforms0 models0 = Inr sets
      \<and> length sets = 2
      \<and> image_binding 6 (sets ! 0) =
          Some [\<lparr>layout = VK_IMAGE_LAYOUT_SHADER_READ_ONLY_OPTIMAL,
                 imageViewName = 101, samplerName = 102\<rparr>]
      \<and> image_binding 6 (sets ! 0) = image_binding 2 (sets ! 0)"
    unfolding m0 len(1) by simp
  from ao_binding_fallback [OF ready trans len(3), of 7 128]
  have b: "\<exists>sets. createStaticMeshDescriptorSet 7 128 uniforms0 models0 = Inr sets
      \<and> image_binding 6 (sets ! 1) =
          Some [\<lparr>layout = VK_IMAGE_LAYOUT_SHADER_READ_ONLY_OPTIMAL,
                 imageViewName = 241, samplerName = 242\<rparr>]"
    using m1 by auto
  from a b show ?thesis by blast
qed

text \<open>
  The concrete uniform pointers and models are the ones \<^verbatim>\<open>createUniformBuffers\<close> produces
  for two models and an alignment of 256 bytes.
\<close>

lemma createUniformBuffers_layout0:
  "fst (createUniformBuffers 128 [modelWithoutAO, modelWithAO] (DeferredRenderer_ctor 256)) =
     (uniforms0, models0)"
  by (simp add: createUniformBuffers_def alloc_def align_up_def Let_def
        DeferredRenderer_ctor_def setAlignment_def newUniformBlob_def ALL_UNIFORM_BLOB_SIZE_def
        sizeof_CubeMapCameraUniformBuffer_def sizeof_TransMatsUniformBuffer_def
        sizeof_LightingPassUniformBuffer_def sizeof_DisplayInfoUniformBuffer_def
        sizeof_PointLight_def sizeof_mat4_def sizeof_vec4_def sizeof_vec3_def sizeof_float_def
        NUM_LIGHTS_def uniforms0_def models0_def)

text \<open>
  C10 fails on the skybox set. With the uniform blob laid out for an alignment of 256
  bytes, \<^verbatim>\<open>createSkyboxDescriptorSet\<close> binds at binding 0 the range that starts at the
  offset of \<^verbatim>\<open>m_uTransMats\<close> (512) with the size of \<^verbatim>\<open>DisplayInfoUniformBuffer\<close>
  (4 bytes), not the size of \<^verbatim>\<open>TransMatsUniformBuffer\<close> (64 bytes), which
  \<^verbatim>\<open>createStaticMeshDescriptorSet\<close> binds for the same structure.
\<close>

theorem skybox_transform_binding_size:
  "buffer_binding 0 (projr (createSkyboxDescriptorSet 7 uniforms0 (texture 300))) =
     Some [\<lparr>bufferName = 7, offset = 512, sizeInBytes = 4\<rparr>]
   \<and> isl (createSkyboxDescriptorSet 7 uniforms0 (texture 300)) = False
   \<and> m_uTransMats uniforms0 = Some 512
   \<and> sizeof_TransMatsUniformBuffer = 64
   \<and> sizeof_DisplayInfoUniformBuffer = 4
   \<and> map (buffer_binding 0) (projr (createStaticMeshDescriptorSet 7 128 uniforms0 models0)) =
       [Some [\<lparr>bufferName = 7, offset = 512, sizeInBytes = 64\<rparr>],
        Some [\<lparr>bufferName = 7, offset = 512, sizeInBytes = 64\<rparr>]]"
  by (simp add: createSkyboxDescriptorSet_def createStaticMeshDescriptorSet_def
      staticMeshDescriptorSet_def uniforms0_def models0_def modelWithoutAO_def modelWithAO_def
      texture_def noImage_def UINT32_MAX_def offsetOf_def bindE_def imageInfoOf_def
      first_of_def at_index_def sizeof_TransMatsUniformBuffer_def
      sizeof_DisplayInfoUniformBuffer_def sizeof_mat4_def sizeof_float_def)

text \<open>
  The other uniform-buffer descriptors do bind the size of the structure behind them: the
  per-model sets (bindings 0 and 1), the lighting set (binding 0) and the final output set
  (binding 5).
\<close>

lemma uniform_bindings_sized:
  "staticMeshDescriptorSet buf sz u m = Inr ws \<Longrightarrow>
     buffer_binding 0 ws =
       Some [\<lparr>bufferName = buf, offset = the (m_uTransMats u),
              sizeInBytes = sizeof_TransMatsUniformBuffer\<rparr>]
     \<and> buffer_binding 1 ws =
       Some [\<lparr>bufferName = buf, offset = the (uPerModelInfo m), sizeInBytes = sz\<rparr>]"
  "createLightingPassDescriptorSets buf u gbs depth diff spec brdfs = Inr ls \<Longrightarrow>
     buffer_binding 0 ls =
       Some [\<lparr>bufferName = buf, offset = the (m_uLightInfo u),
              sizeInBytes = sizeof_LightingPassUniformBuffer\<rparr>]"
  "createFinalOutputPassDescriptorSets buf u ca depth = Inr fs \<Longrightarrow>
     buffer_binding 5 fs =
       Some [\<lparr>bufferName = buf, offset = the (m_uDisplayInfo u),
              sizeInBytes = sizeof_DisplayInfoUniformBuffer\<rparr>]"
  by (auto simp: staticMeshDescriptorSet_def createLightingPassDescriptorSets_def
      createFinalOutputPassDescriptorSets_def bindE_def offsetOf_def
      split: sum.splits option.splits)

section \<open>Environment prefiltering\<close>











section \<open>The precomputation cache\<close>

text \<open>
  C4 fails when the artifacts are not cached together. On a file system where the BRDF
  look-up table and \<^verbatim>\<open>Diffuse_HDR.dds\<close> exist and only \<^verbatim>\<open>Specular_HDR.dds\<close> is missing,
  the diffuse irradiance map is loaded from its file and marked ready (it is not flagged
  for saving, and \<^verbatim>\<open>createFramebuffers\<close> creates no diffuse prefilter framebuffer), and
  still \<^verbatim>\<open>createEnvPrefilterCommandBuffer\<close> records the diffuse prefilter pass in front of
  the three specular passes, and \<^verbatim>\<open>prefilterEnvironmentAndComputeBrdfLut\<close> submits that
  command buffer: the function returns early only when both maps are ready.
\<close>

theorem cached_diffuse_map_prefiltered_again:
  "case run 32 512 (all_but (PROBE_BASE_DIR @ ''Specular_HDR.dds'')) skybox0 vk_ok of
     Inl e \<Rightarrow> False
   | Inr r \<Rightarrow>
       diffMapReady (m_skybox r) \<and> \<not> shouldSaveDiffMap (m_skybox r)
       \<and> m_diffEnvPrefilterFramebuffer r = None
       \<and> (case m_envPrefilterCommandBuffer r of
            None \<Rightarrow> False
          | Some cmds \<Rightarrow>
              rec_renderPass (hd (record_passes None cmds)) = SpecEnvPrefilterRenderPass
              \<and> rec_framebuffer (hd (record_passes None cmds)) = DiffEnvPrefilterFramebuffer
              \<and> rec_renderArea (hd (record_passes None cmds)) =
                  \<lparr>ext_width = 32, ext_height = 32\<rparr>
              \<and> rec_pipelines (hd (record_passes None cmds)) = [DiffEnvPrefilterPipeline]
              \<and> rec_draws (hd (record_passes None cmds)) = 1
              \<and> length (record_passes None cmds) = 4)
       \<and> List.member (events r)
            (QueueSubmit VK_QUEUE_GRAPHICS_BIT EnvPrefilterCommandBuffer EnvPrefilterFence)
       \<and> List.member (events r)
            (LoadSkybox ''../models/sky_sphere.obj''
               ''../textures/Environment/PaperMill/Unfiltered_HDR.dds'' []
               ''../textures/Environment/PaperMill/Diffuse_HDR.dds'')"
  by code_simp

text \<open>
  The other way round, with only \<^verbatim>\<open>Diffuse_HDR.dds\<close> missing, the specular loop runs over
  the mip levels of the cached specular map and indexes the vector of specular prefilter
  framebuffers, which \<^verbatim>\<open>createFramebuffers\<close> left empty.
\<close>

lemma cached_specular_map_out_of_range:
  "run 32 512 (all_but (PROBE_BASE_DIR @ ''Diffuse_HDR.dds'')) skybox0 vk_ok = Inl OutOfRange"
  by code_simp

end
